theory Spec2Isabelle
  imports Complex_Main "HOL-Library.List_Lexorder" "HOL-Library.Char_ord"
begin

section \<open>Numbers\<close>

text \<open>
  A JavaScript number is a double. A finite number is kept as the real that it stands for,
  and the three IEEE specials that a division can produce are kept beside it. Transaction
  amounts and the sums that a report rounds to cents are of type \<open>real\<close>; what is computed
  with a division (an average, a month span, a runway) is of type \<open>number\<close>.

  The sums that a report rounds to cents are formed in exact arithmetic and rounded by
  \<open>round2\<close>. When the amounts are whole numbers of cents such a sum is a whole number of
  cents, and this is the number of cents that the program reports. The integers of a month
  key are small, and the arithmetic of the doubles on them is exact.

  A quotient depends on the rounding of the doubles (0.6 / 0.1 is 5.999999999999999, its
  floor is 5), and so does what is computed from it. Where the program divides, the model
  computes in the arithmetic of the doubles, from the sums on: \<open>fadd a b\<close>, \<open>fsub a b\<close>,
  \<open>fmul a b\<close> and \<open>fdiv a b\<close> (for \<open>b\<close> other than 0) are the sum, the difference, the
  product and the quotient of the doubles nearest to \<open>a\<close> and to \<open>b\<close>, each rounded to the
  nearest double. Overflow to an infinity, of a conversion or of an operation on finite
  numbers, and the sign of a zero are outside the model.
\<close>

datatype number = Fin real | PosInf | NegInf | NaN

text \<open>The integer nearest to \<open>y\<close>, a tie going to the even one.\<close>

definition roundToEven :: "real \<Rightarrow> int" where
  "roundToEven y =
     (let f = \<lfloor>y\<rfloor>
      in if y - of_int f < 1 / 2 then f
         else if y - of_int f > 1 / 2 then f + 1
         else if even f then f else f + 1)"

text \<open>The power \<open>2\<^sup>e\<close>, and the binary exponent of a positive \<open>x\<close>, that is the \<open>e\<close> with
  \<open>2\<^sup>e \<le> x < 2\<^sup>e\<^sup>+\<^sup>1\<close>, searched from the guess \<open>e\<close> in at most \<open>n\<close> steps.\<close>

definition pow2 :: "int \<Rightarrow> real" where
  "pow2 e = (if 0 \<le> e then 2 ^ nat e else 1 / 2 ^ nat (- e))"

fun binaryExponent :: "nat \<Rightarrow> int \<Rightarrow> real \<Rightarrow> int" where
  "binaryExponent 0 e x = e"
| "binaryExponent (Suc n) e x =
     (if x < pow2 e then binaryExponent n (e - 1) x
      else if pow2 (e + 1) \<le> x then binaryExponent n (e + 1) x
      else e)"

text \<open>The double nearest to \<open>x\<close> (binary64, rounding to nearest, ties to even): a multiple
  of the quantum \<open>2\<^sup>q\<close>, which leaves 53 significant bits and is \<open>2\<^sup>-\<^sup>1\<^sup>0\<^sup>7\<^sup>4\<close> at least. The
  exponents of the doubles lie between -1074 and 1023, within reach of the search.\<close>

definition double :: "real \<Rightarrow> real" where
  "double x =
     (if x = 0 then 0
      else let e = binaryExponent 2100 0 \<bar>x\<bar>;
               q = max (e - 52) (- 1074)
           in of_int (roundToEven (x / pow2 q)) * pow2 q)"

definition fadd :: "real \<Rightarrow> real \<Rightarrow> real" where
  "fadd a b = double (double a + double b)"

definition fsub :: "real \<Rightarrow> real \<Rightarrow> real" where
  "fsub a b = double (double a - double b)"

definition fmul :: "real \<Rightarrow> real \<Rightarrow> real" where
  "fmul a b = double (double a * double b)"

definition fdiv :: "real \<Rightarrow> real \<Rightarrow> real" where
  "fdiv a b = double (double a / double b)"

text \<open>\<open>Math.round\<close>: the nearest integer, a tie going to the larger one.\<close>

definition Math_round :: "real \<Rightarrow> real" where
  "Math_round x = of_int \<lfloor>x + 1 / 2\<rfloor>"

text \<open>The idiom \<open>Math.round(x * 100) / 100\<close> on a sum of amounts, in exact arithmetic.\<close>

definition round2 :: "real \<Rightarrow> real" where
  "round2 x = Math_round (x * 100) / 100"

text \<open>The same idiom on a number that was computed with a division: the product is that of
  the doubles, \<open>Math.round\<close> is exact on it, and the quotient of the integer by 100 is the
  double nearest to this number of cents, kept as this number of cents. An infinity and
  \<open>NaN\<close> pass through the product, the rounding and the quotient.\<close>

definition fl_round2 :: "real \<Rightarrow> real" where
  "fl_round2 x = Math_round (fmul x 100) / 100"

fun round2n :: "number \<Rightarrow> number" where
  "round2n (Fin x) = Fin (fl_round2 x)"
| "round2n PosInf = PosInf"
| "round2n NegInf = NegInf"
| "round2n NaN = NaN"


text \<open>Arithmetic on the numbers read from a month key, whose finite values are integers:
  \<open>a + b\<close>, \<open>a - b\<close> and \<open>a * b\<close>.\<close>

fun js_add :: "number \<Rightarrow> number \<Rightarrow> number" where
  "js_add (Fin a) (Fin b) = Fin (a + b)"
| "js_add NaN _ = NaN"
| "js_add _ NaN = NaN"
| "js_add PosInf NegInf = NaN"
| "js_add NegInf PosInf = NaN"
| "js_add PosInf _ = PosInf"
| "js_add NegInf _ = NegInf"
| "js_add (Fin a) PosInf = PosInf"
| "js_add (Fin a) NegInf = NegInf"

fun js_neg :: "number \<Rightarrow> number" where
  "js_neg (Fin a) = Fin (- a)"
| "js_neg PosInf = NegInf"
| "js_neg NegInf = PosInf"
| "js_neg NaN = NaN"

definition js_sub :: "number \<Rightarrow> number \<Rightarrow> number" where
  "js_sub a b = js_add a (js_neg b)"

definition signed_inf :: "real \<Rightarrow> number" where
  "signed_inf s = (if s > 0 then PosInf else if s < 0 then NegInf else NaN)"

fun js_mul :: "number \<Rightarrow> number \<Rightarrow> number" where
  "js_mul (Fin a) (Fin b) = Fin (a * b)"
| "js_mul NaN _ = NaN"
| "js_mul _ NaN = NaN"
| "js_mul PosInf (Fin b) = signed_inf b"
| "js_mul NegInf (Fin b) = signed_inf (- b)"
| "js_mul (Fin a) PosInf = signed_inf a"
| "js_mul (Fin a) NegInf = signed_inf (- a)"
| "js_mul PosInf PosInf = PosInf"
| "js_mul PosInf NegInf = NegInf"
| "js_mul NegInf PosInf = NegInf"
| "js_mul NegInf NegInf = PosInf"



fun fl_sub :: "number \<Rightarrow> number \<Rightarrow> number" where
  "fl_sub (Fin a) (Fin b) = Fin (fsub a b)"
| "fl_sub NaN _ = NaN"
| "fl_sub _ NaN = NaN"
| "fl_sub PosInf PosInf = NaN"
| "fl_sub NegInf NegInf = NaN"
| "fl_sub PosInf _ = PosInf"
| "fl_sub NegInf _ = NegInf"
| "fl_sub (Fin a) PosInf = NegInf"
| "fl_sub (Fin a) NegInf = PosInf"

fun fl_div :: "number \<Rightarrow> number \<Rightarrow> number" where
  "fl_div (Fin a) (Fin b) = (if b \<noteq> 0 then Fin (fdiv a b) else signed_inf a)"
| "fl_div NaN _ = NaN"
| "fl_div _ NaN = NaN"
| "fl_div (Fin a) PosInf = Fin 0"
| "fl_div (Fin a) NegInf = Fin 0"
| "fl_div PosInf (Fin b) = (if b \<ge> 0 then PosInf else NegInf)"
| "fl_div NegInf (Fin b) = (if b \<ge> 0 then NegInf else PosInf)"
| "fl_div PosInf _ = NaN"
| "fl_div NegInf _ = NaN"

text \<open>\<open>a >= 0\<close> and \<open>a > b\<close>: every comparison with \<open>NaN\<close> is false.\<close>

fun js_ge0 :: "number \<Rightarrow> bool" where
  "js_ge0 (Fin a) = (a \<ge> 0)"
| "js_ge0 PosInf = True"
| "js_ge0 NegInf = False"
| "js_ge0 NaN = False"

fun js_gt :: "number \<Rightarrow> number \<Rightarrow> bool" where
  "js_gt (Fin a) (Fin b) = (a > b)"
| "js_gt NaN _ = False"
| "js_gt _ NaN = False"
| "js_gt PosInf PosInf = False"
| "js_gt PosInf _ = True"
| "js_gt NegInf _ = False"
| "js_gt (Fin a) PosInf = False"
| "js_gt (Fin a) NegInf = True"

fun Math_abs :: "number \<Rightarrow> number" where
  "Math_abs (Fin a) = Fin \<bar>a\<bar>"
| "Math_abs PosInf = PosInf"
| "Math_abs NegInf = PosInf"
| "Math_abs NaN = NaN"

fun Math_floor :: "number \<Rightarrow> number" where
  "Math_floor (Fin a) = Fin (of_int \<lfloor>a\<rfloor>)"
| "Math_floor PosInf = PosInf"
| "Math_floor NegInf = NegInf"
| "Math_floor NaN = NaN"

section \<open>Strings\<close>

text \<open>
  Strings are lists of 8-bit characters, compared by character code
  (the order of \<open>String.prototype.localeCompare\<close> and of \<open><\<close> on the digits,
  letters and hyphens of a month key). \<open>toLowerCase\<close> is modelled on ASCII letters.
\<close>

definition toLowerCase_char :: "char \<Rightarrow> char" where
  "toLowerCase_char c =
     (case map_of (zip ''ABCDEFGHIJKLMNOPQRSTUVWXYZ'' ''abcdefghijklmnopqrstuvwxyz'') c of
        Some d \<Rightarrow> d
      | None \<Rightarrow> c)"

definition toLowerCase :: "string \<Rightarrow> string" where
  "toLowerCase s = map toLowerCase_char s"

text \<open>\<open>s.startsWith(p)\<close> and \<open>s.includes(p)\<close>.\<close>

fun startsWith :: "string \<Rightarrow> string \<Rightarrow> bool" where
  "startsWith s [] = True"
| "startsWith [] (p # ps) = False"
| "startsWith (c # s) (p # ps) = (c = p \<and> startsWith s ps)"

fun includes_str :: "string \<Rightarrow> string \<Rightarrow> bool" where
  "includes_str [] p = (p = [])"
| "includes_str (c # s) p = (startsWith (c # s) p \<or> includes_str s p)"

text \<open>\<open>s.split(d)\<close> for a separator of one character.\<close>

fun split :: "char \<Rightarrow> string \<Rightarrow> string list" where
  "split d [] = [[]]"
| "split d (c # cs) =
     (if c = d then [] # split d cs
      else (case split d cs of
              [] \<Rightarrow> [[c]]
            | p # ps \<Rightarrow> (c # p) # ps))"


text \<open>\<open>String(n)\<close> for an integer \<open>n\<close>: its decimal digits, a minus sign before a
  negative one.\<close>

definition digit_char :: "nat \<Rightarrow> char" where
  "digit_char d = ''0123456789'' ! (d mod 10)"

fun digits :: "nat \<Rightarrow> string" where
  "digits n = (if n < 10 then [digit_char n] else digits (n div 10) @ [digit_char (n mod 10)])"

declare digits.simps [simp del]

definition String_int :: "int \<Rightarrow> string" where
  "String_int i = (if i < 0 then CHR ''-'' # digits (nat (- i)) else digits (nat i))"

text \<open>\<open>s.padStart(2, "0")\<close>.\<close>

definition padStart2 :: "string \<Rightarrow> string" where
  "padStart2 s = replicate (2 - length s) CHR ''0'' @ s"

text \<open>
  \<open>Number(s)\<close> on the pieces of a month key: the empty string is 0, a string of
  decimal digits is its value, and every other piece met there (\<open>"NaN"\<close>) is \<open>NaN\<close>.
  Signs, blanks, fractions, exponents and hexadecimal literals do not occur in a piece
  of a key split at its hyphens and are not modelled.
\<close>

definition digit_val :: "char \<Rightarrow> nat option" where
  "digit_val c = map_of (zip ''0123456789'' [0, 1, 2, 3, 4, 5, 6, 7, 8, 9]) c"

fun Number_digits :: "nat \<Rightarrow> string \<Rightarrow> number" where
  "Number_digits acc [] = Fin (real acc)"
| "Number_digits acc (c # cs) =
     (case digit_val c of
        None \<Rightarrow> NaN
      | Some d \<Rightarrow> Number_digits (10 * acc + d) cs)"

definition Number :: "string \<Rightarrow> number" where
  "Number s = Number_digits 0 s"

section \<open>Transactions\<close>

datatype CreditDebit = CREDIT | DEBIT

text \<open>A reverse-transaction reference is a string or a number (or \<open>null\<close>).\<close>

datatype string_or_number = Str string | Num real

text \<open>The fields of a transaction that the analysis module reads.\<close>

record Transaction =
  Effective_Date_Time :: string
  Description :: string
  Credit_Debit :: CreditDebit
  Kind :: string
  Amount_Single_Column :: real
  Is_Reverse :: "string option"
  Is_Reversed :: "string option"
  Reverse_Transaction_ID :: "string_or_number option"
  Opposite_Account_Handle :: string
  Opposite_Account_Name :: string
  Accounting_Category_Name :: "string option"

text \<open>\<open>Boolean(v)\<close> of a nullable string-or-number.\<close>

fun Boolean :: "string_or_number option \<Rightarrow> bool" where
  "Boolean None = False"
| "Boolean (Some (Str s)) = (s \<noteq> [])"
| "Boolean (Some (Num n)) = (n \<noteq> 0)"

definition isReversedOrReverse :: "Transaction \<Rightarrow> bool" where
  "isReversedOrReverse tx =
     (Is_Reverse tx = Some ''true'' \<or> Is_Reversed tx = Some ''true''
      \<or> Boolean (Reverse_Transaction_ID tx))"

text \<open>
  \<open>new Date(dateString)\<close> read in the local time zone is a parameter of the model:
  \<open>D s = Some (y, m)\<close> gives \<open>getFullYear()\<close> and \<open>getMonth()\<close> (0 to 11) of the
  date, \<open>D s = None\<close> is an invalid date, whose getters return \<open>NaN\<close>.
\<close>

type_synonym date_env = "string \<Rightarrow> (int \<times> int) option"

definition getYearMonth :: "date_env \<Rightarrow> string \<Rightarrow> string" where
  "getYearMonth D dateString =
     (case D dateString of
        None \<Rightarrow> ''NaN-NaN''
      | Some (y, m) \<Rightarrow> String_int y @ ''-'' @ padStart2 (String_int (m + 1)))"

section \<open>Maps in insertion order\<close>

text \<open>
  A JavaScript \<open>Map\<close> keeps its entries in the order of first insertion, which
  \<open>Array.from(map.entries())\<close> returns: the map is the list of its entries.
\<close>

type_synonym 'v js_map = "(string \<times> 'v) list"

definition map_get :: "'v js_map \<Rightarrow> string \<Rightarrow> 'v option" where
  "map_get m k = map_of m k"

fun map_set :: "'v js_map \<Rightarrow> string \<Rightarrow> 'v \<Rightarrow> 'v js_map" where
  "map_set [] k v = [(k, v)]"
| "map_set ((k', v') # m) k v =
     (if k' = k then (k, v) # m else (k', v') # map_set m k v)"

text \<open>\<open>a || b || "Unknown"\<close> on strings: the first non-empty one.\<close>

definition counterparty :: "Transaction \<Rightarrow> string" where
  "counterparty tx =
     (if Opposite_Account_Name tx \<noteq> [] then Opposite_Account_Name tx
      else if Opposite_Account_Handle tx \<noteq> [] then Opposite_Account_Handle tx
      else ''Unknown'')"

section \<open>Monthly summary\<close>

record MonthlyData =
  month :: string
  income :: real
  expenses :: real
  net :: real

text \<open>The body of the loop of \<open>calculateMonthlyData\<close>; the map holds
  \<open>(income, expenses)\<close>.\<close>

definition calculateMonthlyData_step ::
  "date_env \<Rightarrow> (real \<times> real) js_map \<Rightarrow> Transaction \<Rightarrow> (real \<times> real) js_map" where
  "calculateMonthlyData_step D monthlyMap tx =
     (if isReversedOrReverse tx then monthlyMap
      else
        let month = getYearMonth D (Effective_Date_Time tx);
            current = (case map_get monthlyMap month of Some c \<Rightarrow> c | None \<Rightarrow> (0, 0))
        in map_set monthlyMap month
             (if Credit_Debit tx = CREDIT
              then (fst current + Amount_Single_Column tx, snd current)
              else (fst current, snd current + \<bar>Amount_Single_Column tx\<bar>)))"

definition calculateMonthlyData :: "date_env \<Rightarrow> Transaction list \<Rightarrow> MonthlyData list" where
  "calculateMonthlyData D transactions =
     sort_key month
       (map (\<lambda>(month, data).
               \<lparr>month = month,
                income = round2 (fst data),
                expenses = round2 (snd data),
                net = round2 (fst data - snd data)\<rparr>)
            (foldl (calculateMonthlyData_step D) [] transactions))"

section \<open>Breakdowns by counterparty and by category\<close>

record SourceBreakdown =
  source :: string
  amount :: real
  count :: nat

record ExpenseBreakdown =
  recipient :: string
  amount_eb :: real
  count_eb :: nat

text \<open>The maps of these loops hold \<open>(amount, count)\<close>.\<close>

definition analyzeIncomeSources_step ::
  "(real \<times> nat) js_map \<Rightarrow> Transaction \<Rightarrow> (real \<times> nat) js_map" where
  "analyzeIncomeSources_step sourceMap tx =
     (if isReversedOrReverse tx then sourceMap
      else if Credit_Debit tx \<noteq> CREDIT then sourceMap
      else
        let source = counterparty tx;
            current = (case map_get sourceMap source of Some c \<Rightarrow> c | None \<Rightarrow> (0, 0))
        in map_set sourceMap source
             (fst current + Amount_Single_Column tx, snd current + 1))"

text \<open>
  \<open>Array.from(map.entries()).map(...).sort((a, b) => b.amount - a.amount)\<close>: the amounts
  are rounded, and the sort is stable and descending by amount. \<open>analyzeContributions\<close>
  names this expression \<open>toBreakdown\<close>; \<open>analyzeIncomeSources\<close> and
  \<open>analyzeExpensesByCategory\<close> end with the same expression written out.
\<close>

definition toBreakdown :: "(real \<times> nat) js_map \<Rightarrow> SourceBreakdown list" where
  "toBreakdown m =
     sort_key (\<lambda>r. - amount r)
       (map (\<lambda>(source, data).
               \<lparr>source = source, amount = round2 (fst data), count = snd data\<rparr>) m)"

definition analyzeIncomeSources :: "Transaction list \<Rightarrow> SourceBreakdown list" where
  "analyzeIncomeSources transactions =
     toBreakdown (foldl analyzeIncomeSources_step [] transactions)"

definition analyzeExpenses_step ::
  "(real \<times> nat) js_map \<Rightarrow> Transaction \<Rightarrow> (real \<times> nat) js_map" where
  "analyzeExpenses_step expenseMap tx =
     (if isReversedOrReverse tx then expenseMap
      else if Credit_Debit tx \<noteq> DEBIT then expenseMap
      else
        let recipient = counterparty tx;
            current = (case map_get expenseMap recipient of Some c \<Rightarrow> c | None \<Rightarrow> (0, 0))
        in map_set expenseMap recipient
             (fst current + \<bar>Amount_Single_Column tx\<bar>, snd current + 1))"

definition analyzeExpenses :: "Transaction list \<Rightarrow> ExpenseBreakdown list" where
  "analyzeExpenses transactions =
     sort_key (\<lambda>r. - amount_eb r)
       (map (\<lambda>(recipient, data).
               \<lparr>recipient = recipient, amount_eb = round2 (fst data), count_eb = snd data\<rparr>)
            (foldl analyzeExpenses_step [] transactions))"

text \<open>
  The category of an expense, as computed inside the loop of
  \<open>analyzeExpensesByCategory\<close>: \<open>(tx["Accounting Category Name"] ?? tx["Kind"]) ||
  "Uncategorized"\<close>, then the chain of rules. The two copies of the module differ in the
  last rule only.
\<close>

definition effectiveCategory :: "Transaction \<Rightarrow> string" where
  "effectiveCategory tx =
     (let c = (case Accounting_Category_Name tx of Some a \<Rightarrow> a | None \<Rightarrow> Kind tx)
      in if c \<noteq> [] then c else ''Uncategorized'')"

text \<open>The copy in \<open>src/lib/analysis.ts\<close>.\<close>

definition expenseCategory :: "Transaction \<Rightarrow> string" where
  "expenseCategory tx =
     (let category = effectiveCategory tx;
          description = toLowerCase (Description tx)
      in if startsWith category ''Consultants''
            \<or> includes_str description ''core maintainer stipend''
         then ''Paid Maintainers''
         else if startsWith category ''Grants''
            \<or> startsWith category ''Other, Support & Commu''
            \<or> includes_str description ''community award''
         then ''Community Incentives''
         else if category = ''EXPENSE''
            \<or> category = ''CONTRIBUTION''
            \<or> startsWith category ''Expenses - Donation''
            \<or> startsWith category ''Expenses - Travel''
            \<or> startsWith category ''Contributions - Hosted''
         then ''Miscellaneous''
         else category)"

text \<open>The copy in the second module, with the rule for host fees.\<close>

definition expenseCategory_full :: "Transaction \<Rightarrow> string" where
  "expenseCategory_full tx =
     (let category = effectiveCategory tx;
          description = toLowerCase (Description tx)
      in if startsWith category ''Consultants''
            \<or> includes_str description ''core maintainer stipend''
         then ''Paid Maintainers''
         else if startsWith category ''Grants''
            \<or> startsWith category ''Other, Support & Commu''
            \<or> includes_str description ''community award''
         then ''Community Incentives''
         else if category = ''EXPENSE''
            \<or> category = ''CONTRIBUTION''
            \<or> startsWith category ''Expenses - Donation''
            \<or> startsWith category ''Expenses - Travel''
            \<or> startsWith category ''Contributions - Hosted''
         then ''Miscellaneous''
         else if category = ''HOST_FEE''
         then ''OC Fees''
         else category)"

definition analyzeExpensesByCategory_step ::
  "(real \<times> nat) js_map \<Rightarrow> Transaction \<Rightarrow> (real \<times> nat) js_map" where
  "analyzeExpensesByCategory_step categoryMap tx =
     (if isReversedOrReverse tx then categoryMap
      else if Credit_Debit tx \<noteq> DEBIT then categoryMap
      else
        let category = expenseCategory tx;
            current = (case map_get categoryMap category of Some c \<Rightarrow> c | None \<Rightarrow> (0, 0))
        in map_set categoryMap category
             (fst current + \<bar>Amount_Single_Column tx\<bar>, snd current + 1))"

definition analyzeExpensesByCategory :: "Transaction list \<Rightarrow> SourceBreakdown list" where
  "analyzeExpensesByCategory transactions =
     toBreakdown (foldl analyzeExpensesByCategory_step [] transactions)"

definition analyzeExpensesByCategory_full_step ::
  "(real \<times> nat) js_map \<Rightarrow> Transaction \<Rightarrow> (real \<times> nat) js_map" where
  "analyzeExpensesByCategory_full_step categoryMap tx =
     (if isReversedOrReverse tx then categoryMap
      else if Credit_Debit tx \<noteq> DEBIT then categoryMap
      else
        let category = expenseCategory_full tx;
            current = (case map_get categoryMap category of Some c \<Rightarrow> c | None \<Rightarrow> (0, 0))
        in map_set categoryMap category
             (fst current + \<bar>Amount_Single_Column tx\<bar>, snd current + 1))"

definition analyzeExpensesByCategory_full :: "Transaction list \<Rightarrow> SourceBreakdown list" where
  "analyzeExpensesByCategory_full transactions =
     toBreakdown (foldl analyzeExpensesByCategory_full_step [] transactions)"

section \<open>Contributions\<close>

definition isRecurringContribution :: "Transaction \<Rightarrow> bool" where
  "isRecurringContribution tx =
     includes_str (toLowerCase (Description tx)) ''monthly contribution''"

record ContributionSide =
  amount_side :: real
  count_side :: nat
  contributors :: "SourceBreakdown list"

record ContributorAnalysis =
  recurring :: ContributionSide
  oneTime :: ContributionSide

text \<open>The loop of \<open>analyzeContributions\<close> fills two maps,
  \<open>(recurringMap, oneTimeMap)\<close>.\<close>

definition analyzeContributions_step ::
  "(real \<times> nat) js_map \<times> (real \<times> nat) js_map \<Rightarrow> Transaction
   \<Rightarrow> (real \<times> nat) js_map \<times> (real \<times> nat) js_map" where
  "analyzeContributions_step maps tx =
     (if isReversedOrReverse tx then maps
      else if Credit_Debit tx \<noteq> CREDIT then maps
      else if Kind tx \<noteq> ''CONTRIBUTION'' then maps
      else
        let source = counterparty tx;
            isRecurring = isRecurringContribution tx;
            targetMap = (if isRecurring then fst maps else snd maps);
            current = (case map_get targetMap source of Some c \<Rightarrow> c | None \<Rightarrow> (0, 0));
            targetMap' = map_set targetMap source
                           (fst current + Amount_Single_Column tx, snd current + 1)
        in if isRecurring then (targetMap', snd maps) else (fst maps, targetMap'))"

definition analyzeContributions :: "Transaction list \<Rightarrow> ContributorAnalysis" where
  "analyzeContributions transactions =
     (let maps = foldl analyzeContributions_step ([], []) transactions;
          recurringList = toBreakdown (fst maps);
          oneTimeList = toBreakdown (snd maps)
      in \<lparr>recurring =
            \<lparr>amount_side = round2 (foldl (\<lambda>sum c. sum + amount c) 0 recurringList),
             count_side = foldl (\<lambda>sum c. sum + count c) 0 recurringList,
             contributors = recurringList\<rparr>,
          oneTime =
            \<lparr>amount_side = round2 (foldl (\<lambda>sum c. sum + amount c) 0 oneTimeList),
             count_side = foldl (\<lambda>sum c. sum + count c) 0 oneTimeList,
             contributors = oneTimeList\<rparr>\<rparr>)"

record MonthlyContributions =
  month_mc :: string
  recurring_mc :: real
  oneTime_mc :: real

text \<open>The map of this loop holds \<open>(recurring, oneTime)\<close>.\<close>

definition analyzeMonthlyRecurringContributions_step ::
  "date_env \<Rightarrow> (real \<times> real) js_map \<Rightarrow> Transaction \<Rightarrow> (real \<times> real) js_map" where
  "analyzeMonthlyRecurringContributions_step D monthlyMap tx =
     (if isReversedOrReverse tx then monthlyMap
      else if Credit_Debit tx \<noteq> CREDIT then monthlyMap
      else if Kind tx \<noteq> ''CONTRIBUTION'' then monthlyMap
      else
        let month = getYearMonth D (Effective_Date_Time tx);
            isRecurring = isRecurringContribution tx;
            current = (case map_get monthlyMap month of Some c \<Rightarrow> c | None \<Rightarrow> (0, 0))
        in map_set monthlyMap month
             (if isRecurring
              then (fst current + Amount_Single_Column tx, snd current)
              else (fst current, snd current + Amount_Single_Column tx)))"

definition analyzeMonthlyRecurringContributions ::
  "date_env \<Rightarrow> Transaction list \<Rightarrow> MonthlyContributions list" where
  "analyzeMonthlyRecurringContributions D transactions =
     sort_key month_mc
       (map (\<lambda>(month, data).
               \<lparr>month_mc = month,
                recurring_mc = round2 (fst data),
                oneTime_mc = round2 (snd data)\<rparr>)
            (foldl (analyzeMonthlyRecurringContributions_step D) [] transactions))"

section \<open>Salaried expenses\<close>

text \<open>
  An element taken out of a list of numbers by destructuring and used in arithmetic:
  a missing element is \<open>undefined\<close>, which arithmetic turns into \<open>NaN\<close>.
\<close>

definition element :: "number list \<Rightarrow> nat \<Rightarrow> number" where
  "element xs i = (if i < length xs then xs ! i else NaN)"

definition monthsBetween :: "string \<Rightarrow> string \<Rightarrow> number" where
  "monthsBetween earliest latest =
     (let e = map Number (split CHR ''-'' earliest);
          l = map Number (split CHR ''-'' latest);
          earliestYear = element e 0;
          earliestMonth = element e 1;
          latestYear = element l 0;
          latestMonth = element l 1
      in js_add
           (js_add (js_mul (js_sub latestYear earliestYear) (Fin 12))
                   (js_sub latestMonth earliestMonth))
           (Fin 1))"

text \<open>The value that the map of \<open>analyzeSalariedExpenses\<close> holds for a recipient. The
  \<open>total\<close> of the loop is kept twice: as the exact sum \<open>total\<close>, from which the reported
  \<open>totalPaid\<close> is rounded, and as the sum \<open>total_fp\<close> in the arithmetic of the doubles,
  which the division by the month span reads.\<close>

record recipient_data =
  total :: real
  total_fp :: real
  paymentCount_acc :: nat
  earliestMonth :: string
  latestMonth :: string
  description_acc :: string

record SalaryAnalysis =
  recipient_sa :: string
  totalPaid :: real
  monthlyAverage :: number
  paymentCount :: nat
  firstPayment :: string
  lastPayment :: string
  description :: string

definition salaryKeywords :: "string list" where
  "salaryKeywords = [''stipend'', ''salary'', ''maintainer'', ''contractor'', ''developer'']"

definition isSalaryLike :: "Transaction \<Rightarrow> bool" where
  "isSalaryLike tx =
     (let descLower = toLowerCase (Description tx);
          categoryLower =
            toLowerCase (case Accounting_Category_Name tx of Some a \<Rightarrow> a | None \<Rightarrow> [])
      in list_ex (\<lambda>kw. includes_str descLower kw) salaryKeywords
         \<or> includes_str categoryLower ''consultant''
         \<or> includes_str categoryLower ''maintenance'')"

definition analyzeSalariedExpenses_step ::
  "date_env \<Rightarrow> recipient_data js_map \<Rightarrow> Transaction
   \<Rightarrow> recipient_data js_map" where
  "analyzeSalariedExpenses_step D recipientMap tx =
     (if isReversedOrReverse tx then recipientMap
      else if Credit_Debit tx \<noteq> DEBIT then recipientMap
      else if Kind tx \<noteq> ''EXPENSE'' then recipientMap
      else if \<not> isSalaryLike tx then recipientMap
      else
        let recipient = counterparty tx;
            month = getYearMonth D (Effective_Date_Time tx);
            current = (case map_get recipientMap recipient of
                         Some c \<Rightarrow> c
                       | None \<Rightarrow> \<lparr>total = 0, total_fp = 0, paymentCount_acc = 0,
                                  earliestMonth = month, latestMonth = month,
                                  description_acc = Description tx\<rparr>);
            current1 = current\<lparr>total := total current + \<bar>Amount_Single_Column tx\<bar>,
                               total_fp := fadd (total_fp current) \<bar>Amount_Single_Column tx\<bar>,
                               paymentCount_acc := paymentCount_acc current + 1\<rparr>;
            current2 = (if month < earliestMonth current1
                        then current1\<lparr>earliestMonth := month\<rparr> else current1);
            current3 = (if month > latestMonth current2
                        then current2\<lparr>latestMonth := month\<rparr> else current2)
        in map_set recipientMap recipient current3)"

definition analyzeSalariedExpenses ::
  "date_env \<Rightarrow> Transaction list \<Rightarrow> SalaryAnalysis list" where
  "analyzeSalariedExpenses D transactions =
     sort_key (\<lambda>r. - totalPaid r)
       (map (\<lambda>(recipient, data).
               let monthSpan = monthsBetween (earliestMonth data) (latestMonth data)
               in \<lparr>recipient_sa = recipient,
                   totalPaid = round2 (total data),
                   monthlyAverage = round2n (fl_div (Fin (total_fp data)) monthSpan),
                   paymentCount = paymentCount_acc data,
                   firstPayment = earliestMonth data,
                   lastPayment = latestMonth data,
                   description = description_acc data\<rparr>)
            (foldl (analyzeSalariedExpenses_step D) [] transactions))"

section \<open>Runway projection\<close>

text \<open>\<open>xs.slice(start)\<close> and \<open>xs.slice(0, end)\<close> for integer arguments: a negative
  index counts from the end of the list.\<close>

definition slice_from :: "int \<Rightarrow> 'a list \<Rightarrow> 'a list" where
  "slice_from start xs =
     (let len = int (length xs);
          k = (if start < 0 then max (len + start) 0 else min start len)
      in drop (nat k) xs)"

definition slice_to :: "int \<Rightarrow> 'a list \<Rightarrow> 'a list" where
  "slice_to end xs =
     (let len = int (length xs);
          final = (if end < 0 then max (len + end) 0 else min end len)
      in take (nat final) xs)"

record RunwayProjection =
  currentBalance :: real
  averageMonthlyExpenses :: number
  averageMonthlyIncome :: number
  averageMonthlyNet :: number
  monthsOfRunway :: number
  requiredMonthlyContribution :: number

text \<open>The third argument is \<open>monthsToAverage\<close>, 6 when the caller leaves it out. The sum
  \<open>currentBalance\<close> of the monthly nets is kept twice: as the exact sum \<open>balance\<close>, from
  which the reported \<open>currentBalance\<close> is rounded, and as the sum \<open>balance_fp\<close> in the
  arithmetic of the doubles, which the division reads.\<close>

definition calculateRunwayProjection ::
  "date_env \<Rightarrow> Transaction list \<Rightarrow> int \<Rightarrow> RunwayProjection" where
  "calculateRunwayProjection D transactions monthsToAverage =
     (let monthlyData = calculateMonthlyData D transactions;
          recentMonths = slice_from (- monthsToAverage) monthlyData;
          balance = foldl (\<lambda>sum m. sum + net m) 0 monthlyData;
          balance_fp = foldl (\<lambda>sum m. fadd sum (net m)) 0 monthlyData;
          avgExpenses =
            fl_div (Fin (foldl (\<lambda>sum m. fadd sum (expenses m)) 0 recentMonths))
                     (Fin (real (length recentMonths)));
          avgIncome =
            fl_div (Fin (foldl (\<lambda>sum m. fadd sum (income m)) 0 recentMonths))
                     (Fin (real (length recentMonths)));
          avgNet = fl_sub avgIncome avgExpenses;
          runway =
            (if js_ge0 avgNet then PosInf
             else Math_floor (fl_div (Fin balance_fp) (Math_abs avgNet)));
          required =
            (if js_gt avgExpenses avgIncome then fl_sub avgExpenses avgIncome else Fin 0)
      in \<lparr>currentBalance = round2 balance,
          averageMonthlyExpenses = round2n avgExpenses,
          averageMonthlyIncome = round2n avgIncome,
          averageMonthlyNet = round2n avgNet,
          monthsOfRunway = runway,
          requiredMonthlyContribution = round2n required\<rparr>)"

section \<open>Largest contributions\<close>

record SingleContribution =
  date :: string
  source_sc :: string
  amount_sc :: real
  description_sc :: string
  isRecurring :: bool

text \<open>\<open>s.split("T")[0]\<close>: the part of the string before its first \<open>T\<close>.\<close>

definition date_part :: "string \<Rightarrow> string" where
  "date_part s = hd (split CHR ''T'' s)"

definition getLargestSingleContributions_step ::
  "SingleContribution list \<Rightarrow> Transaction \<Rightarrow> SingleContribution list" where
  "getLargestSingleContributions_step contributions tx =
     (if isReversedOrReverse tx then contributions
      else if Credit_Debit tx \<noteq> CREDIT then contributions
      else contributions @
             [\<lparr>date = date_part (Effective_Date_Time tx),
               source_sc = counterparty tx,
               amount_sc = Amount_Single_Column tx,
               description_sc = Description tx,
               isRecurring = isRecurringContribution tx\<rparr>])"

text \<open>The second argument is \<open>limit\<close>, 10 when the caller leaves it out.\<close>

definition getLargestSingleContributions ::
  "Transaction list \<Rightarrow> int \<Rightarrow> SingleContribution list" where
  "getLargestSingleContributions transactions limit =
     slice_to limit
       (sort_key (\<lambda>c. - amount_sc c)
          (foldl getLargestSingleContributions_step [] transactions))"

definition getLargestOneTimeContributions ::
  "Transaction list \<Rightarrow> int \<Rightarrow> SingleContribution list" where
  "getLargestOneTimeContributions transactions limit =
     slice_to limit
       (filter (\<lambda>c. \<not> isRecurring c) (getLargestSingleContributions transactions 1000))"

section \<open>Salaries as a share of income\<close>



section \<open>Top contributors and top expenses\<close>



section \<open>Income by kind of source\<close>















section \<open>Reference definitions for the properties\<close>

text \<open>The input with every reversal and every reversed transaction removed.\<close>

definition withoutReversed :: "Transaction list \<Rightarrow> Transaction list" where
  "withoutReversed transactions = filter (\<lambda>tx. \<not> isReversedOrReverse tx) transactions"

text \<open>The transactions that a report puts under the key \<open>k\<close>: those it selects whose
  key is \<open>k\<close>, in the order of the input.\<close>

definition bucket ::
  "(Transaction \<Rightarrow> bool) \<Rightarrow> (Transaction \<Rightarrow> string) \<Rightarrow> string \<Rightarrow> Transaction list
   \<Rightarrow> Transaction list" where
  "bucket sel key k transactions = filter (\<lambda>tx. sel tx \<and> key tx = k) transactions"

text \<open>What the reports select: the transactions that are not reversed, among them the
  credits and the debits, among the credits the contributions, recurring or one-time
  (the largest-contribution views tell recurring from one-time on every credit), and
  among the debits the salary-like expenses.\<close>

definition notReversed :: "Transaction \<Rightarrow> bool" where
  "notReversed tx = (\<not> isReversedOrReverse tx)"

definition isIncome :: "Transaction \<Rightarrow> bool" where
  "isIncome tx = (\<not> isReversedOrReverse tx \<and> Credit_Debit tx = CREDIT)"

definition isExpense :: "Transaction \<Rightarrow> bool" where
  "isExpense tx = (\<not> isReversedOrReverse tx \<and> Credit_Debit tx = DEBIT)"

definition isContribution :: "Transaction \<Rightarrow> bool" where
  "isContribution tx = (isIncome tx \<and> Kind tx = ''CONTRIBUTION'')"

definition isRecurringGift :: "Transaction \<Rightarrow> bool" where
  "isRecurringGift tx = (isContribution tx \<and> isRecurringContribution tx)"

definition isOneTimeGift :: "Transaction \<Rightarrow> bool" where
  "isOneTimeGift tx = (isContribution tx \<and> \<not> isRecurringContribution tx)"

definition isOneTimeIncome :: "Transaction \<Rightarrow> bool" where
  "isOneTimeIncome tx = (isIncome tx \<and> \<not> isRecurringContribution tx)"

definition isSalary :: "Transaction \<Rightarrow> bool" where
  "isSalary tx = (isExpense tx \<and> Kind tx = ''EXPENSE'' \<and> isSalaryLike tx)"

text \<open>Sums of amounts, of absolute amounts, of the credits and of the absolute debits.\<close>

definition absAmount :: "Transaction \<Rightarrow> real" where
  "absAmount tx = \<bar>Amount_Single_Column tx\<bar>"



definition creditTotal :: "Transaction list \<Rightarrow> real" where
  "creditTotal ts =
     sum_list (map Amount_Single_Column (filter (\<lambda>tx. Credit_Debit tx = CREDIT) ts))"

definition debitTotal :: "Transaction list \<Rightarrow> real" where
  "debitTotal ts = sum_list (map absAmount (filter (\<lambda>tx. Credit_Debit tx = DEBIT) ts))"

text \<open>The month key of a transaction, and the month key of year \<open>y\<close> (not negative) and
  month number \<open>m\<close>.\<close>

definition monthOf :: "date_env \<Rightarrow> Transaction \<Rightarrow> string" where
  "monthOf D tx = getYearMonth D (Effective_Date_Time tx)"

definition keyOf :: "nat \<Rightarrow> nat \<Rightarrow> string" where
  "keyOf y m = digits y @ CHR ''-'' # padStart2 (digits m)"

text \<open>A payment date that the host reads as a valid date in a year of four digits, the
  year and the month number (1 to 12) of a payment, and the inclusive count of months
  from the payment \<open>e\<close> to the payment \<open>l\<close>.\<close>

definition validDate :: "date_env \<Rightarrow> Transaction \<Rightarrow> bool" where
  "validDate D tx =
     (case D (Effective_Date_Time tx) of
        Some (y, m) \<Rightarrow> 1000 \<le> y \<and> y \<le> 9999 \<and> 0 \<le> m \<and> m \<le> 11
      | None \<Rightarrow> False)"

definition yearOf :: "date_env \<Rightarrow> Transaction \<Rightarrow> int" where
  "yearOf D tx = (case D (Effective_Date_Time tx) of Some (y, m) \<Rightarrow> y | None \<Rightarrow> 0)"

definition monthNumber :: "date_env \<Rightarrow> Transaction \<Rightarrow> int" where
  "monthNumber D tx = (case D (Effective_Date_Time tx) of Some (y, m) \<Rightarrow> m + 1 | None \<Rightarrow> 0)"

definition monthSpan :: "date_env \<Rightarrow> Transaction \<Rightarrow> Transaction \<Rightarrow> int" where
  "monthSpan D e l =
     (yearOf D l - yearOf D e) * 12 + (monthNumber D l - monthNumber D e) + 1"

text \<open>\<open>e\<close> is paid no later than \<open>l\<close>, by year and then by month.\<close>

definition notLater :: "date_env \<Rightarrow> Transaction \<Rightarrow> Transaction \<Rightarrow> bool" where
  "notLater D e l =
     (yearOf D e < yearOf D l \<or> (yearOf D e = yearOf D l \<and> monthNumber D e \<le> monthNumber D l))"

text \<open>The fields of a salary row that the month span decides.\<close>

definition span_view :: "SalaryAnalysis \<Rightarrow> real \<times> string \<times> string \<times> number \<times> number" where
  "span_view r =
     (totalPaid r, firstPayment r, lastPayment r,
      monthsBetween (firstPayment r) (lastPayment r), monthlyAverage r)"

text \<open>The record that \<open>getLargestSingleContributions\<close> lists for a credit, and the credits
  that are not reversed by descending amount.\<close>

definition contributionOf :: "Transaction \<Rightarrow> SingleContribution" where
  "contributionOf tx =
     \<lparr>date = date_part (Effective_Date_Time tx),
      source_sc = counterparty tx,
      amount_sc = Amount_Single_Column tx,
      description_sc = Description tx,
      isRecurring = isRecurringContribution tx\<rparr>"

definition creditsByAmount :: "Transaction list \<Rightarrow> SingleContribution list" where
  "creditsByAmount transactions =
     sort_key (\<lambda>c. - amount_sc c) (map contributionOf (filter isIncome transactions))"

text \<open>The trailing window of the monthly summary that the projection averages over. In
  the arithmetic of the doubles: the sum of a list, accumulated from 0; its mean; the
  mean income minus the mean expenses over the window; and the sum of all monthly nets.\<close>

definition window :: "date_env \<Rightarrow> Transaction list \<Rightarrow> int \<Rightarrow> MonthlyData list" where
  "window D transactions k = slice_from (- k) (calculateMonthlyData D transactions)"

definition floatSum :: "real list \<Rightarrow> real" where
  "floatSum xs = foldl (fadd) 0 xs"

definition floatMean :: "real list \<Rightarrow> real" where
  "floatMean xs = fdiv (floatSum xs) (real (length xs))"

definition floatAverageNet :: "date_env \<Rightarrow> Transaction list \<Rightarrow> int \<Rightarrow> real" where
  "floatAverageNet D transactions k =
     fsub (floatMean (map income (window D transactions k)))
            (floatMean (map expenses (window D transactions k)))"

definition floatBalance :: "date_env \<Rightarrow> Transaction list \<Rightarrow> real" where
  "floatBalance D transactions = floatSum (map net (calculateMonthlyData D transactions))"

text \<open>The mean of a list; the average monthly net over the window, as the mean of the
  \<open>net\<close> of its rows; and the months of runway for a balance and an average monthly net,
  as the specification words them.\<close>

definition mean :: "real list \<Rightarrow> real" where
  "mean xs = sum_list xs / real (length xs)"

definition windowMeanNet :: "date_env \<Rightarrow> Transaction list \<Rightarrow> int \<Rightarrow> real" where
  "windowMeanNet D transactions k = mean (map net (window D transactions k))"

definition specifiedRunway :: "real \<Rightarrow> real \<Rightarrow> number" where
  "specifiedRunway balance averageNet =
     (if averageNet \<ge> 0 then PosInf else Fin (of_int \<lfloor>balance / \<bar>averageNet\<bar>\<rfloor>))"















section \<open>The shape of the grouping loops\<close>

text \<open>
  The common shape of the grouping loops: skip the transaction unless it is selected,
  else read the entry of its key (a fresh one when there is none), update it and
  store it. Each loop body above is an instance, which the proofs use, with one of the
  updates below; \<open>salary_init\<close> is the entry that the salary loop creates for a new
  recipient.
\<close>

definition group_step ::
  "(Transaction \<Rightarrow> bool) \<Rightarrow> (Transaction \<Rightarrow> string) \<Rightarrow> (Transaction \<Rightarrow> 'v)
   \<Rightarrow> ('v \<Rightarrow> Transaction \<Rightarrow> 'v) \<Rightarrow> 'v js_map \<Rightarrow> Transaction \<Rightarrow> 'v js_map" where
  "group_step sel key init upd m tx =
     (if sel tx
      then map_set m (key tx)
             (upd (case map_get m (key tx) of Some c \<Rightarrow> c | None \<Rightarrow> init tx) tx)
      else m)"

definition add_amount :: "(Transaction \<Rightarrow> real) \<Rightarrow> real \<times> nat \<Rightarrow> Transaction \<Rightarrow> real \<times> nat" where
  "add_amount f c tx = (fst c + f tx, snd c + 1)"

definition add_income_expense :: "real \<times> real \<Rightarrow> Transaction \<Rightarrow> real \<times> real" where
  "add_income_expense c tx =
     (if Credit_Debit tx = CREDIT
      then (fst c + Amount_Single_Column tx, snd c)
      else (fst c, snd c + \<bar>Amount_Single_Column tx\<bar>))"


definition salary_init :: "date_env \<Rightarrow> Transaction \<Rightarrow> recipient_data" where
  "salary_init D tx =
     \<lparr>total = 0, total_fp = 0, paymentCount_acc = 0, earliestMonth = monthOf D tx,
      latestMonth = monthOf D tx, description_acc = Description tx\<rparr>"

definition salary_upd ::
  "date_env \<Rightarrow> recipient_data \<Rightarrow> Transaction \<Rightarrow> recipient_data" where
  "salary_upd D c tx =
     c\<lparr>total := total c + absAmount tx,
       total_fp := fadd (total_fp c) (absAmount tx),
       paymentCount_acc := paymentCount_acc c + 1,
       earliestMonth := min (monthOf D tx) (earliestMonth c),
       latestMonth := max (monthOf D tx) (latestMonth c)\<rparr>"



definition add_to_source :: "real js_map \<Rightarrow> Transaction \<Rightarrow> real js_map" where
  "add_to_source contribs tx =
     map_set contribs (counterparty tx)
       ((case map_get contribs (counterparty tx) of Some v \<Rightarrow> v | None \<Rightarrow> 0)
        + Amount_Single_Column tx)"



section \<open>Example data\<close>


text \<open>A host whose clock reads these timestamps in the months they name.\<close>

definition ex_dates :: date_env where
  "ex_dates s =
     map_of [(''2024-01-15T12:00:00.000Z'', (2024, 0)),
             (''2024-01-20T12:00:00.000Z'', (2024, 0)),
             (''2024-02-15T12:00:00.000Z'', (2024, 1)),
             (''2024-03-20T12:00:00.000Z'', (2024, 2)),
             (''9999-12-15T12:00:00.000Z'', (9999, 11)),
             (''+010000-01-15T12:00:00.000Z'', (10000, 0))] s"

text \<open>A monthly contribution of 100 and a stipend of 40, both in January 2024.\<close>

definition ex_contribution :: Transaction where
  "ex_contribution =
     \<lparr>Effective_Date_Time = ''2024-01-15T12:00:00.000Z'',
      Description = ''Monthly contribution from X'',
      Credit_Debit = CREDIT,
      Kind = ''CONTRIBUTION'',
      Amount_Single_Column = 100,
      Is_Reverse = None,
      Is_Reversed = None,
      Reverse_Transaction_ID = None,
      Opposite_Account_Handle = ''x'',
      Opposite_Account_Name = ''X'',
      Accounting_Category_Name = None\<rparr>"

definition ex_stipend :: Transaction where
  "ex_stipend =
     \<lparr>Effective_Date_Time = ''2024-01-20T12:00:00.000Z'',
      Description = ''stipend payment'',
      Credit_Debit = DEBIT,
      Kind = ''EXPENSE'',
      Amount_Single_Column = - 40,
      Is_Reverse = None,
      Is_Reversed = None,
      Reverse_Transaction_ID = None,
      Opposite_Account_Handle = ''y'',
      Opposite_Account_Name = [],
      Accounting_Category_Name = None\<rparr>"

text \<open>A refund that reverses an earlier transaction.\<close>

definition ex_reversal :: Transaction where
  "ex_reversal =
     ex_contribution\<lparr>Amount_Single_Column := 250, Is_Reverse := Some ''true''\<rparr>"

text \<open>A consultant's invoice whose description names a community award, and a host fee.\<close>

definition ex_award :: Transaction where
  "ex_award =
     ex_stipend\<lparr>Description := ''Community Award for docs'',
                Accounting_Category_Name := Some ''Consultants - Engineering'',
                Opposite_Account_Name := ''Z''\<rparr>"

definition ex_host_fee :: Transaction where
  "ex_host_fee =
     ex_stipend\<lparr>Description := ''Host fee'', Kind := ''HOST_FEE'',
                Amount_Single_Column := - 5\<rparr>"

text \<open>Seven recurring and three one-time contributions, of the amounts given.\<close>

definition ex_monthly :: "real \<Rightarrow> Transaction" where
  "ex_monthly a = ex_contribution\<lparr>Amount_Single_Column := a\<rparr>"

definition ex_gift :: "real \<Rightarrow> Transaction" where
  "ex_gift a = ex_contribution\<lparr>Description := ''Donation'', Amount_Single_Column := a\<rparr>"

definition ex_ten :: "Transaction list" where
  "ex_ten = [ex_monthly 1000, ex_gift 450, ex_monthly 900, ex_monthly 800, ex_gift 950,
             ex_monthly 700, ex_monthly 600, ex_monthly 500, ex_gift 750, ex_monthly 400]"

text \<open>A credit and a debit of less than two cents.\<close>

definition ex_small_credit :: Transaction where
  "ex_small_credit = ex_contribution\<lparr>Amount_Single_Column := 6 / 1000\<rparr>"

definition ex_small_debit :: Transaction where
  "ex_small_debit = ex_stipend\<lparr>Amount_Single_Column := - (12 / 1000)\<rparr>"

text \<open>A second stipend two months later; two stipends around the end of year 9999; a
  stipend whose timestamp does not parse.\<close>

definition ex_stipend_march :: Transaction where
  "ex_stipend_march = ex_stipend\<lparr>Effective_Date_Time := ''2024-03-20T12:00:00.000Z''\<rparr>"

definition ex_stipend_9999 :: Transaction where
  "ex_stipend_9999 = ex_stipend\<lparr>Effective_Date_Time := ''9999-12-15T12:00:00.000Z''\<rparr>"

definition ex_stipend_10000 :: Transaction where
  "ex_stipend_10000 = ex_stipend\<lparr>Effective_Date_Time := ''+010000-01-15T12:00:00.000Z''\<rparr>"

definition ex_stipend_undated :: Transaction where
  "ex_stipend_undated = ex_stipend\<lparr>Effective_Date_Time := ''n/a''\<rparr>"

text \<open>A contribution of 0.70 in January and an expense of 0.10 in February; stipends of
  1.00 in January and of 1.01 in February.\<close>

definition ex_credit_70 :: Transaction where
  "ex_credit_70 = ex_contribution\<lparr>Amount_Single_Column := 7 / 10\<rparr>"

definition ex_debit_10 :: Transaction where
  "ex_debit_10 =
     ex_stipend\<lparr>Effective_Date_Time := ''2024-02-15T12:00:00.000Z'',
                Amount_Single_Column := - (1 / 10)\<rparr>"

definition ex_stipend_100 :: Transaction where
  "ex_stipend_100 = ex_stipend\<lparr>Amount_Single_Column := - 1\<rparr>"

definition ex_stipend_101 :: Transaction where
  "ex_stipend_101 =
     ex_stipend\<lparr>Effective_Date_Time := ''2024-02-15T12:00:00.000Z'',
                Amount_Single_Column := - (101 / 100)\<rparr>"



section \<open>Loops over the transactions\<close>

lemma foldl_filter_skip:
  assumes "\<And>m t. p t \<Longrightarrow> step m t = m"
  shows "foldl step m (filter (\<lambda>t. \<not> p t) txs) = foldl step m txs"
  using assms by (induction txs arbitrary: m) auto

lemma map_of_map_set: "map_of (map_set m k v) = (map_of m)(k \<mapsto> v)"
  by (induction m) auto

lemma keys_map_set:
  "map fst (map_set m k v) = (if k \<in> set (map fst m) then map fst m else map fst m @ [k])"
  by (induction m) force+

lemma distinct_map_set: "distinct (map fst m) \<Longrightarrow> distinct (map fst (map_set m k v))"
  by (simp add: keys_map_set)

lemma set_keys_map_set: "fst ` set (map_set m k v) = insert k (fst ` set m)"
proof -
  have "set (map fst (map_set m k v)) = insert k (set (map fst m))"
    by (simp only: keys_map_set) (simp add: insert_absorb)
  then show ?thesis by simp
qed

lemma group_lookup:
  "map_of (foldl (group_step sel key init upd) m txs) k =
      (case filter (\<lambda>t. sel t \<and> key t = k) txs of
         [] \<Rightarrow> map_of m k
       | t # ts \<Rightarrow> Some (foldl upd (case map_of m k of Some c \<Rightarrow> c | None \<Rightarrow> init t) (t # ts)))"
proof (induction txs arbitrary: m)
  case Nil
  then show ?case by simp
next
  case (Cons a txs)
  show ?case
  proof (cases "sel a \<and> key a = k")
    case True
    then show ?thesis
      using Cons [of "group_step sel key init upd m a"]
      by (auto simp: group_step_def map_of_map_set map_get_def split: list.splits option.splits)
  next
    case False
    then show ?thesis
      using Cons [of "group_step sel key init upd m a"]
      by (auto simp: group_step_def map_of_map_set map_get_def split: list.splits option.splits)
  qed
qed

lemma group_keys:
  "fst ` set (foldl (group_step sel key init upd) m txs) =
   fst ` set m \<union> key ` {t \<in> set txs. sel t}"
  by (induction txs arbitrary: m) (auto simp: group_step_def set_keys_map_set)

lemma group_distinct:
  "distinct (map fst m) \<Longrightarrow> distinct (map fst (foldl (group_step sel key init upd) m txs))"
  by (induction txs arbitrary: m) (auto simp: group_step_def distinct_map_set)

lemma group_entry:
  assumes mem: "(k, d) \<in> set (foldl (group_step sel key init upd) [] txs)"
  shows "bucket sel key k txs \<noteq> []
         \<and> d = foldl upd (init (hd (bucket sel key k txs))) (bucket sel key k txs)"
proof -
  have "distinct (map fst (foldl (group_step sel key init upd) [] txs))"
    by (rule group_distinct) simp
  with mem have "map_of (foldl (group_step sel key init upd) [] txs) k = Some d"
    by simp
  then show ?thesis
    unfolding group_lookup bucket_def by (auto split: list.splits)
qed

lemma group_entry_exists:
  assumes mem: "t \<in> set txs" "sel t"
  shows "\<exists>d. (key t, d) \<in> set (foldl (group_step sel key init upd) [] txs)"
proof -
  have "key t \<in> fst ` set (foldl (group_step sel key init upd) [] txs)"
    unfolding group_keys using mem by auto
  then show ?thesis by force
qed

lemma foldl_add_amount:
  "foldl (add_amount f) (a, n) ts = (a + sum_list (map f ts), n + length ts)"
  by (induction ts arbitrary: a n) (auto simp: add_amount_def algebra_simps)

lemma foldl_plus_sum_list: "foldl (\<lambda>s x. s + f x) a xs = a + sum_list (map f xs)"
  for a :: "'a::monoid_add"
  by (induction xs arbitrary: a) (auto simp: add.assoc)

lemma set_toBreakdown:
  "set (toBreakdown m) =
   (\<lambda>(k, d). \<lparr>source = k, amount = round2 (fst d), count = snd d\<rparr>) ` set m"
  by (simp add: toBreakdown_def)

lemma breakdown_rows:
  assumes mem: "r \<in> set (toBreakdown
      (foldl (group_step sel key (\<lambda>t. (0, 0)) (add_amount f)) [] txs))"
  shows "bucket sel key (source r) txs \<noteq> []
         \<and> amount r = round2 (sum_list (map f (bucket sel key (source r) txs)))
         \<and> count r = length (bucket sel key (source r) txs)"
proof -
  from mem obtain k d
    where kd: "(k, d) \<in> set (foldl (group_step sel key (\<lambda>t. (0, 0)) (add_amount f)) [] txs)"
    and r: "r = \<lparr>source = k, amount = round2 (fst d), count = snd d\<rparr>"
    by (auto simp: set_toBreakdown)
  from group_entry [OF kd] show ?thesis
    by (simp add: r foldl_add_amount)
qed

lemma breakdown_row_exists:
  assumes mem: "t \<in> set txs" "sel t"
  shows "\<exists>r \<in> set (toBreakdown (foldl (group_step sel key init upd) [] txs)). source r = key t"
proof -
  from group_entry_exists [where sel = sel and key = key and init = init and upd = upd, OF mem]
  obtain d where "(key t, d) \<in> set (foldl (group_step sel key init upd) [] txs)" ..
  then have "\<lparr>source = key t, amount = round2 (fst d), count = snd d\<rparr>
      \<in> set (toBreakdown (foldl (group_step sel key init upd) [] txs))"
    by (force simp: set_toBreakdown)
  then show ?thesis by force
qed

lemma calculateMonthlyData_withoutReversed:
  "calculateMonthlyData D (withoutReversed txs) = calculateMonthlyData D txs"
  unfolding calculateMonthlyData_def withoutReversed_def
  by (subst foldl_filter_skip) (simp_all add: calculateMonthlyData_step_def)

lemma analyzeIncomeSources_withoutReversed:
  "analyzeIncomeSources (withoutReversed txs) = analyzeIncomeSources txs"
  unfolding analyzeIncomeSources_def withoutReversed_def
  by (subst foldl_filter_skip) (simp_all add: analyzeIncomeSources_step_def)

lemma analyzeExpenses_withoutReversed:
  "analyzeExpenses (withoutReversed txs) = analyzeExpenses txs"
  unfolding analyzeExpenses_def withoutReversed_def
  by (subst foldl_filter_skip) (simp_all add: analyzeExpenses_step_def)

lemma analyzeExpensesByCategory_withoutReversed:
  "analyzeExpensesByCategory (withoutReversed txs) = analyzeExpensesByCategory txs"
  unfolding analyzeExpensesByCategory_def withoutReversed_def
  by (subst foldl_filter_skip) (simp_all add: analyzeExpensesByCategory_step_def)

lemma analyzeExpensesByCategory_full_withoutReversed:
  "analyzeExpensesByCategory_full (withoutReversed txs) = analyzeExpensesByCategory_full txs"
  unfolding analyzeExpensesByCategory_full_def withoutReversed_def
  by (subst foldl_filter_skip) (simp_all add: analyzeExpensesByCategory_full_step_def)

lemma analyzeContributions_withoutReversed:
  "analyzeContributions (withoutReversed txs) = analyzeContributions txs"
  unfolding analyzeContributions_def withoutReversed_def
  by (subst foldl_filter_skip) (simp_all add: analyzeContributions_step_def)

lemma analyzeMonthlyRecurringContributions_withoutReversed:
  "analyzeMonthlyRecurringContributions D (withoutReversed txs) =
   analyzeMonthlyRecurringContributions D txs"
  unfolding analyzeMonthlyRecurringContributions_def withoutReversed_def
  by (subst foldl_filter_skip) (simp_all add: analyzeMonthlyRecurringContributions_step_def)

lemma analyzeSalariedExpenses_withoutReversed:
  "analyzeSalariedExpenses D (withoutReversed txs) = analyzeSalariedExpenses D txs"
  unfolding analyzeSalariedExpenses_def withoutReversed_def
  by (subst foldl_filter_skip) (simp_all add: analyzeSalariedExpenses_step_def)

lemma calculateRunwayProjection_withoutReversed:
  "calculateRunwayProjection D (withoutReversed txs) k = calculateRunwayProjection D txs k"
  unfolding calculateRunwayProjection_def
  by (simp only: calculateMonthlyData_withoutReversed)

lemma getLargestSingleContributions_withoutReversed:
  "getLargestSingleContributions (withoutReversed txs) n = getLargestSingleContributions txs n"
  unfolding getLargestSingleContributions_def withoutReversed_def
  by (subst foldl_filter_skip) (simp_all add: getLargestSingleContributions_step_def)

lemma getLargestOneTimeContributions_withoutReversed:
  "getLargestOneTimeContributions (withoutReversed txs) n = getLargestOneTimeContributions txs n"
  unfolding getLargestOneTimeContributions_def
  by (simp only: getLargestSingleContributions_withoutReversed)

section \<open>Reversed transactions\<close>

text \<open>
  Claim C1. A transaction that is a reversal or has been reversed (\<open>isReversedOrReverse\<close>:
  the is-reverse flag or the is-reversed flag reads \<open>"true"\<close>, or the reference to a
  reverse transaction is a truthy value) contributes to no report: each of the ten report
  functions, and the second copy of the category report, returns the same output on the
  input with all such transactions removed.
\<close>

theorem reversed_never_contribute:
  "calculateMonthlyData D (withoutReversed txs) = calculateMonthlyData D txs
   \<and> analyzeIncomeSources (withoutReversed txs) = analyzeIncomeSources txs
   \<and> analyzeExpenses (withoutReversed txs) = analyzeExpenses txs
   \<and> analyzeExpensesByCategory (withoutReversed txs) = analyzeExpensesByCategory txs
   \<and> analyzeExpensesByCategory_full (withoutReversed txs) = analyzeExpensesByCategory_full txs
   \<and> analyzeContributions (withoutReversed txs) = analyzeContributions txs
   \<and> analyzeMonthlyRecurringContributions D (withoutReversed txs) =
       analyzeMonthlyRecurringContributions D txs
   \<and> analyzeSalariedExpenses D (withoutReversed txs) = analyzeSalariedExpenses D txs
   \<and> calculateRunwayProjection D (withoutReversed txs) k = calculateRunwayProjection D txs k
   \<and> getLargestSingleContributions (withoutReversed txs) n = getLargestSingleContributions txs n
   \<and> getLargestOneTimeContributions (withoutReversed txs) n =
       getLargestOneTimeContributions txs n"
  by (simp only: calculateMonthlyData_withoutReversed analyzeIncomeSources_withoutReversed
      analyzeExpenses_withoutReversed analyzeExpensesByCategory_withoutReversed
      analyzeExpensesByCategory_full_withoutReversed analyzeContributions_withoutReversed
      analyzeMonthlyRecurringContributions_withoutReversed
      analyzeSalariedExpenses_withoutReversed calculateRunwayProjection_withoutReversed
      getLargestSingleContributions_withoutReversed
      getLargestOneTimeContributions_withoutReversed simp_thms)

section \<open>Runway balance\<close>

text \<open>
  Claim C6. The \<open>currentBalance\<close> of the runway projection is the sum of \<open>net\<close> over all
  rows of the monthly summary, whatever the averaging window \<open>k\<close>, rounded to 2 decimals.
\<close>

theorem runway_currentBalance_is_sum_of_all_nets:
  "currentBalance (calculateRunwayProjection D txs k) =
   round2 (sum_list (map net (calculateMonthlyData D txs)))"
  by (simp add: calculateRunwayProjection_def Let_def foldl_plus_sum_list)

section \<open>Expense categories\<close>

lemma analyzeExpensesByCategory_step_group:
  "analyzeExpensesByCategory_step =
   group_step isExpense expenseCategory (\<lambda>t. (0, 0)) (add_amount absAmount)"
  by (intro ext)
     (simp add: analyzeExpensesByCategory_step_def group_step_def add_amount_def isExpense_def
        absAmount_def Let_def)

lemma analyzeExpensesByCategory_full_step_group:
  "analyzeExpensesByCategory_full_step =
   group_step isExpense expenseCategory_full (\<lambda>t. (0, 0)) (add_amount absAmount)"
  by (intro ext)
     (simp add: analyzeExpensesByCategory_full_step_def group_step_def add_amount_def
        isExpense_def absAmount_def Let_def)

lemma category_row:
  assumes "tx \<in> set txs" "isExpense tx"
  shows "\<exists>r \<in> set (analyzeExpensesByCategory txs).
           source r = expenseCategory tx
           \<and> count r = length (bucket isExpense expenseCategory (expenseCategory tx) txs)
           \<and> amount r =
               round2 (sum_list (map absAmount
                 (bucket isExpense expenseCategory (expenseCategory tx) txs)))"
proof -
  from breakdown_row_exists [where sel = isExpense and key = expenseCategory, OF assms]
  obtain r where r: "r \<in> set (analyzeExpensesByCategory txs)" "source r = expenseCategory tx"
    unfolding analyzeExpensesByCategory_def analyzeExpensesByCategory_step_group by blast
  from breakdown_rows [of r isExpense expenseCategory absAmount txs] r
  show ?thesis
    unfolding analyzeExpensesByCategory_def analyzeExpensesByCategory_step_group by force
qed

lemma category_full_row:
  assumes "tx \<in> set txs" "isExpense tx"
  shows "\<exists>r \<in> set (analyzeExpensesByCategory_full txs).
           source r = expenseCategory_full tx
           \<and> count r = length (bucket isExpense expenseCategory_full (expenseCategory_full tx) txs)
           \<and> amount r =
               round2 (sum_list (map absAmount
                 (bucket isExpense expenseCategory_full (expenseCategory_full tx) txs)))"
proof -
  from breakdown_row_exists [where sel = isExpense and key = expenseCategory_full, OF assms]
  obtain r where r: "r \<in> set (analyzeExpensesByCategory_full txs)"
      "source r = expenseCategory_full tx"
    unfolding analyzeExpensesByCategory_full_def analyzeExpensesByCategory_full_step_group
    by blast
  from breakdown_rows [of r isExpense expenseCategory_full absAmount txs] r
  show ?thesis
    unfolding analyzeExpensesByCategory_full_def analyzeExpensesByCategory_full_step_group
    by force
qed

text \<open>
  Claim C8. The rules of the expense classification are tried in a fixed order and the
  first match wins: a DEBIT transaction, not reversed, whose effective category starts
  with \<open>Consultants\<close> and whose lower-cased description contains \<open>community award\<close> is
  classified \<open>Paid Maintainers\<close> by both copies of the module. It is one of the
  transactions counted in the \<open>Paid Maintainers\<close> row of the category report, and is not
  among those of \<open>Community Incentives\<close>.
\<close>

theorem consultants_rule_wins:
  assumes "tx \<in> set txs" and "isExpense tx"
    and "startsWith (effectiveCategory tx) ''Consultants''"
    and "includes_str (toLowerCase (Description tx)) ''community award''"
  shows "expenseCategory tx = ''Paid Maintainers''
     \<and> tx \<in> set (bucket isExpense expenseCategory ''Paid Maintainers'' txs)
     \<and> tx \<notin> set (bucket isExpense expenseCategory ''Community Incentives'' txs)
     \<and> (\<exists>r \<in> set (analyzeExpensesByCategory txs).
           source r = ''Paid Maintainers''
           \<and> count r = length (bucket isExpense expenseCategory ''Paid Maintainers'' txs)
           \<and> amount r =
               round2 (sum_list (map absAmount
                 (bucket isExpense expenseCategory ''Paid Maintainers'' txs))))
     \<and> expenseCategory_full tx = ''Paid Maintainers''
     \<and> tx \<in> set (bucket isExpense expenseCategory_full ''Paid Maintainers'' txs)
     \<and> tx \<notin> set (bucket isExpense expenseCategory_full ''Community Incentives'' txs)
     \<and> (\<exists>r \<in> set (analyzeExpensesByCategory_full txs).
           source r = ''Paid Maintainers''
           \<and> count r = length (bucket isExpense expenseCategory_full ''Paid Maintainers'' txs)
           \<and> amount r =
               round2 (sum_list (map absAmount
                 (bucket isExpense expenseCategory_full ''Paid Maintainers'' txs))))"
proof -
  have c: "expenseCategory tx = ''Paid Maintainers''"
    using assms(3) by (simp add: expenseCategory_def Let_def)
  have cf: "expenseCategory_full tx = ''Paid Maintainers''"
    using assms(3) by (simp add: expenseCategory_full_def Let_def)
  have b: "tx \<in> set (bucket isExpense expenseCategory ''Paid Maintainers'' txs)"
    "tx \<notin> set (bucket isExpense expenseCategory ''Community Incentives'' txs)"
    using assms(1,2) by (simp_all add: bucket_def c)
  have bf: "tx \<in> set (bucket isExpense expenseCategory_full ''Paid Maintainers'' txs)"
    "tx \<notin> set (bucket isExpense expenseCategory_full ''Community Incentives'' txs)"
    using assms(1,2) by (simp_all add: bucket_def cf)
  from category_row [OF assms(1,2)] category_full_row [OF assms(1,2)]
  show ?thesis
    unfolding c cf using b bf by simp
qed

lemma ex_award_facts:
  "isExpense ex_award" "startsWith (effectiveCategory ex_award) ''Consultants''"
  "includes_str (toLowerCase (Description ex_award)) ''community award''"
  by (simp_all add: ex_award_def ex_stipend_def isExpense_def isReversedOrReverse_def
      effectiveCategory_def toLowerCase_def toLowerCase_char_def)

theorem consultants_rule_wins_witness:
  "ex_award \<in> set [ex_stipend, ex_award] \<and> isExpense ex_award
   \<and> startsWith (effectiveCategory ex_award) ''Consultants''
   \<and> includes_str (toLowerCase (Description ex_award)) ''community award''
   \<and> expenseCategory ex_award = ''Paid Maintainers''
   \<and> ex_award \<notin> set (bucket isExpense expenseCategory ''Community Incentives'' [ex_stipend, ex_award])
   \<and> (\<exists>r \<in> set (analyzeExpensesByCategory [ex_stipend, ex_award]).
         source r = ''Paid Maintainers'')"
  using consultants_rule_wins [of ex_award "[ex_stipend, ex_award]"] ex_award_facts
  by auto


text \<open>
  Claim C9. The category reports of the two copies of the module are equal on every
  input with no DEBIT transaction, not reversed, of effective category exactly
  \<open>HOST_FEE\<close>. Such a transaction, when its description matches neither of the two
  description rules, is counted under \<open>OC Fees\<close> by the full copy and under \<open>HOST_FEE\<close>
  by the abridged one.
\<close>

theorem variants_agree_except_host_fee:
  "((\<forall>tx \<in> set txs. \<not> (isExpense tx \<and> effectiveCategory tx = ''HOST_FEE''))
      \<longrightarrow> analyzeExpensesByCategory_full txs = analyzeExpensesByCategory txs)
   \<and> (t \<in> set ts \<and> isExpense t \<and> effectiveCategory t = ''HOST_FEE''
        \<and> \<not> includes_str (toLowerCase (Description t)) ''core maintainer stipend''
        \<and> \<not> includes_str (toLowerCase (Description t)) ''community award''
      \<longrightarrow> expenseCategory_full t = ''OC Fees''
        \<and> expenseCategory t = ''HOST_FEE''
        \<and> (\<exists>r \<in> set (analyzeExpensesByCategory_full ts).
              source r = ''OC Fees''
              \<and> count r = length (bucket isExpense expenseCategory_full ''OC Fees'' ts))
        \<and> t \<in> set (bucket isExpense expenseCategory_full ''OC Fees'' ts)
        \<and> (\<exists>r \<in> set (analyzeExpensesByCategory ts).
              source r = ''HOST_FEE''
              \<and> count r = length (bucket isExpense expenseCategory ''HOST_FEE'' ts))
        \<and> t \<in> set (bucket isExpense expenseCategory ''HOST_FEE'' ts))"
proof (intro conjI impI)
  assume h: "\<forall>tx \<in> set txs. \<not> (isExpense tx \<and> effectiveCategory tx = ''HOST_FEE'')"
  have "foldl analyzeExpensesByCategory_full_step [] txs =
        foldl analyzeExpensesByCategory_step [] txs"
  proof (rule foldl_cong [OF refl refl])
    fix m x assume "x \<in> set txs"
    with h have "\<not> (isExpense x \<and> effectiveCategory x = ''HOST_FEE'')" by blast
    then show "analyzeExpensesByCategory_full_step m x = analyzeExpensesByCategory_step m x"
      by (auto simp: analyzeExpensesByCategory_full_step_def analyzeExpensesByCategory_step_def
          expenseCategory_full_def expenseCategory_def isExpense_def Let_def)
  qed
  then show "analyzeExpensesByCategory_full txs = analyzeExpensesByCategory txs"
    by (simp add: analyzeExpensesByCategory_full_def analyzeExpensesByCategory_def)
next
  assume a: "t \<in> set ts \<and> isExpense t \<and> effectiveCategory t = ''HOST_FEE''
        \<and> \<not> includes_str (toLowerCase (Description t)) ''core maintainer stipend''
        \<and> \<not> includes_str (toLowerCase (Description t)) ''community award''"
  then show cf: "expenseCategory_full t = ''OC Fees''"
    by (simp add: expenseCategory_full_def Let_def)
  from a show c: "expenseCategory t = ''HOST_FEE''"
    by (simp add: expenseCategory_def Let_def)
  from a have m: "t \<in> set ts" "isExpense t" by simp_all
  from category_full_row [OF m]
  show "\<exists>r \<in> set (analyzeExpensesByCategory_full ts).
              source r = ''OC Fees''
              \<and> count r = length (bucket isExpense expenseCategory_full ''OC Fees'' ts)"
    unfolding cf by blast
  from category_row [OF m]
  show "\<exists>r \<in> set (analyzeExpensesByCategory ts).
              source r = ''HOST_FEE''
              \<and> count r = length (bucket isExpense expenseCategory ''HOST_FEE'' ts)"
    unfolding c by blast
  from m show "t \<in> set (bucket isExpense expenseCategory_full ''OC Fees'' ts)"
    by (simp add: bucket_def cf)
  from m show "t \<in> set (bucket isExpense expenseCategory ''HOST_FEE'' ts)"
    by (simp add: bucket_def c)
qed

lemma ex_host_fee_facts:
  "isExpense ex_host_fee" "effectiveCategory ex_host_fee = ''HOST_FEE''"
  "\<not> includes_str (toLowerCase (Description ex_host_fee)) ''core maintainer stipend''"
  "\<not> includes_str (toLowerCase (Description ex_host_fee)) ''community award''"
  "\<not> (isExpense ex_stipend \<and> effectiveCategory ex_stipend = ''HOST_FEE'')"
  "\<not> (isExpense ex_award \<and> effectiveCategory ex_award = ''HOST_FEE'')"
  by (simp_all add: ex_host_fee_def ex_award_def ex_stipend_def isExpense_def isReversedOrReverse_def
      effectiveCategory_def toLowerCase_def toLowerCase_char_def)

theorem variants_agree_except_host_fee_witness:
  "analyzeExpensesByCategory_full [ex_stipend, ex_award] =
     analyzeExpensesByCategory [ex_stipend, ex_award]
   \<and> isExpense ex_host_fee \<and> effectiveCategory ex_host_fee = ''HOST_FEE''
   \<and> expenseCategory_full ex_host_fee = ''OC Fees''
   \<and> expenseCategory ex_host_fee = ''HOST_FEE''
   \<and> (\<exists>r \<in> set (analyzeExpensesByCategory_full [ex_stipend, ex_host_fee]).
         source r = ''OC Fees'')
   \<and> (\<exists>r \<in> set (analyzeExpensesByCategory [ex_stipend, ex_host_fee]).
         source r = ''HOST_FEE'')"
  using variants_agree_except_host_fee
          [of "[ex_stipend, ex_award]" ex_host_fee "[ex_stipend, ex_host_fee]"]
        ex_host_fee_facts
  by auto

section \<open>Largest one-time contributions\<close>

lemma foldl_getLargestSingleContributions_step:
  "foldl getLargestSingleContributions_step acc txs =
   acc @ map contributionOf (filter isIncome txs)"
  by (induction txs arbitrary: acc)
     (auto simp: getLargestSingleContributions_step_def contributionOf_def isIncome_def)

lemma slice_to_nonneg: "0 \<le> n \<Longrightarrow> slice_to n xs = take (nat n) xs"
  by (simp add: slice_to_def Let_def min_def)

lemma getLargestSingleContributions_eq:
  "getLargestSingleContributions txs n = slice_to n (creditsByAmount txs)"
  by (simp add: getLargestSingleContributions_def creditsByAmount_def
      foldl_getLargestSingleContributions_step)

lemma filter_creditsByAmount:
  "filter (\<lambda>c. \<not> isRecurring c) (creditsByAmount txs) =
   sort_key (\<lambda>c. - amount_sc c) (map contributionOf (filter isOneTimeIncome txs))"
proof -
  have "filter (\<lambda>c. \<not> isRecurring c) (map contributionOf xs) =
        map contributionOf (filter (\<lambda>t. \<not> isRecurringContribution t) xs)" for xs
    by (induction xs) (auto simp: contributionOf_def)
  moreover have "filter (\<lambda>t. \<not> isRecurringContribution t) (filter isIncome txs) =
        filter isOneTimeIncome txs"
    by (induction txs) (auto simp: isOneTimeIncome_def)
  ultimately show ?thesis
    by (simp add: creditsByAmount_def filter_sort)
qed

text \<open>
  Claim C5. \<open>getLargestOneTimeContributions\<close> takes the 1000 largest CREDIT transactions
  that are not reversed (sorted by descending amount, ties in input order), then keeps the
  non-recurring ones, then slices to the limit \<open>N\<close>, which for \<open>N \<ge> 0\<close> keeps the first
  \<open>N\<close>. When there are at most 1000 such credits and at most \<open>N\<close> of them are one-time,
  the result is exactly the one-time ones by descending amount: so it is for 3 one-time
  and 7 recurring contributions with limit 5.
\<close>

theorem largest_one_time_is_filter_after_cap:
  "getLargestOneTimeContributions txs N =
     slice_to N (filter (\<lambda>c. \<not> isRecurring c) (take 1000 (creditsByAmount txs)))
   \<and> (0 \<le> N \<longrightarrow>
        getLargestOneTimeContributions txs N =
          take (nat N) (filter (\<lambda>c. \<not> isRecurring c) (take 1000 (creditsByAmount txs))))
   \<and> (length (filter isIncome txs) \<le> 1000
        \<and> int (length (filter isOneTimeIncome txs)) \<le> N \<longrightarrow>
        getLargestOneTimeContributions txs N =
          sort_key (\<lambda>c. - amount_sc c) (map contributionOf (filter isOneTimeIncome txs)))"
proof (intro conjI impI)
  show eq: "getLargestOneTimeContributions txs N =
     slice_to N (filter (\<lambda>c. \<not> isRecurring c) (take 1000 (creditsByAmount txs)))"
    by (simp add: getLargestOneTimeContributions_def getLargestSingleContributions_eq
        slice_to_nonneg)
  show "getLargestOneTimeContributions txs N =
          take (nat N) (filter (\<lambda>c. \<not> isRecurring c) (take 1000 (creditsByAmount txs)))"
    if "0 \<le> N"
    using that by (simp add: eq slice_to_nonneg)
  show "getLargestOneTimeContributions txs N =
          sort_key (\<lambda>c. - amount_sc c) (map contributionOf (filter isOneTimeIncome txs))"
    if h: "length (filter isIncome txs) \<le> 1000
        \<and> int (length (filter isOneTimeIncome txs)) \<le> N"
  proof -
    have "length (creditsByAmount txs) \<le> 1000"
      using h by (simp add: creditsByAmount_def)
    then have "take 1000 (creditsByAmount txs) = creditsByAmount txs" by simp
    moreover have "0 \<le> N" using h by linarith
    moreover have "length (sort_key (\<lambda>c. - amount_sc c)
        (map contributionOf (filter isOneTimeIncome txs))) \<le> nat N"
      using h by (simp add: le_nat_iff)
    ultimately show ?thesis
      by (simp add: eq slice_to_nonneg filter_creditsByAmount)
  qed
qed


lemma ex_ten_counts:
  "length (filter isIncome ex_ten) = 10" "length (filter isOneTimeIncome ex_ten) = 3"
  "filter isOneTimeIncome ex_ten = [ex_gift 450, ex_gift 950, ex_gift 750]"
  by (simp_all add: ex_ten_def ex_monthly_def ex_gift_def ex_contribution_def isIncome_def
      isOneTimeIncome_def isReversedOrReverse_def isRecurringContribution_def toLowerCase_def
      toLowerCase_char_def)

theorem largest_one_time_is_filter_after_cap_witness:
  "(0::int) \<le> 5 \<and> length (filter isIncome ex_ten) \<le> 1000
   \<and> int (length (filter isOneTimeIncome ex_ten)) \<le> 5
   \<and> getLargestOneTimeContributions ex_ten 5 =
       [contributionOf (ex_gift 950), contributionOf (ex_gift 750), contributionOf (ex_gift 450)]"
proof -
  have h: "(0::int) \<le> 5 \<and> length (filter isIncome ex_ten) \<le> 1000
      \<and> int (length (filter isOneTimeIncome ex_ten)) \<le> 5"
    by (simp add: ex_ten_counts)
  have s: "sort_key (\<lambda>c. - amount_sc c)
        (map contributionOf [ex_gift 450, ex_gift 950, ex_gift 750]) =
      [contributionOf (ex_gift 950), contributionOf (ex_gift 750), contributionOf (ex_gift 450)]"
    by (simp add: contributionOf_def ex_gift_def)
  from largest_one_time_is_filter_after_cap [of ex_ten 5] h
  have "getLargestOneTimeContributions ex_ten 5 =
      sort_key (\<lambda>c. - amount_sc c) (map contributionOf (filter isOneTimeIncome ex_ten))"
    by blast
  then have "getLargestOneTimeContributions ex_ten 5 =
      [contributionOf (ex_gift 950), contributionOf (ex_gift 750), contributionOf (ex_gift 450)]"
    by (simp only: ex_ten_counts(3) s)
  with h show ?thesis by blast
qed

text \<open>The cap is observable: after 1000 larger recurring contributions a one-time
  contribution is lost, which filtering the whole list would return.\<close>

lemma cap_is_observable:
  "getLargestOneTimeContributions (replicate 1000 (ex_monthly 100) @ [ex_gift 50]) 1 = []
   \<and> take 1 (filter (\<lambda>c. \<not> isRecurring c)
        (creditsByAmount (replicate 1000 (ex_monthly 100) @ [ex_gift 50]))) =
       [contributionOf (ex_gift 50)]"
proof -
  let ?L = "replicate 1000 (ex_monthly 100) @ [ex_gift 50]"
  have inc: "isIncome (ex_monthly 100)" "isIncome (ex_gift 50)"
    by (simp_all add: ex_monthly_def ex_gift_def ex_contribution_def isIncome_def
        isReversedOrReverse_def)
  have rec: "isRecurring (contributionOf (ex_monthly 100))"
    "\<not> isRecurring (contributionOf (ex_gift 50))"
    by (simp_all add: contributionOf_def ex_monthly_def ex_gift_def ex_contribution_def
        isRecurringContribution_def toLowerCase_def toLowerCase_char_def)
  have amt: "amount_sc (contributionOf (ex_monthly 100)) = 100"
    "amount_sc (contributionOf (ex_gift 50)) = 50"
    by (simp_all add: contributionOf_def ex_monthly_def ex_gift_def)
  have "filter isIncome ?L = ?L"
    using inc by simp
  then have "creditsByAmount ?L =
      sort_key (\<lambda>c. - amount_sc c)
        (replicate 1000 (contributionOf (ex_monthly 100)) @ [contributionOf (ex_gift 50)])"
    by (simp add: creditsByAmount_def)
  also have "\<dots> =
      replicate 1000 (contributionOf (ex_monthly 100)) @ [contributionOf (ex_gift 50)]"
    by (rule sort_key_id_if_sorted) (simp add: sorted_append amt)
  finally have c: "creditsByAmount ?L =
      replicate 1000 (contributionOf (ex_monthly 100)) @ [contributionOf (ex_gift 50)]" .
  have "getLargestOneTimeContributions ?L 1 = []"
    using rec by (simp add: getLargestOneTimeContributions_def getLargestSingleContributions_eq
        slice_to_nonneg c)
  moreover have "take 1 (filter (\<lambda>c. \<not> isRecurring c) (creditsByAmount ?L)) =
      [contributionOf (ex_gift 50)]"
    using rec by (simp add: c)
  ultimately show ?thesis by blast
qed

section \<open>Monthly summary rows\<close>










lemma calculateMonthlyData_step_group:
  "calculateMonthlyData_step D =
   group_step notReversed (monthOf D) (\<lambda>t. (0, 0)) add_income_expense"
  by (intro ext)
     (simp add: calculateMonthlyData_step_def group_step_def add_income_expense_def
        notReversed_def monthOf_def Let_def)

lemma foldl_add_income_expense:
  "foldl add_income_expense (a, b) ts = (a + creditTotal ts, b + debitTotal ts)"
proof (induction ts arbitrary: a b)
  case Nil
  then show ?case by (simp add: creditTotal_def debitTotal_def)
next
  case (Cons t ts)
  show ?case
  proof (cases "Credit_Debit t")
    case CREDIT
    then show ?thesis
      using Cons [of "a + Amount_Single_Column t" b]
      by (simp add: add_income_expense_def creditTotal_def debitTotal_def)
  next
    case DEBIT
    then show ?thesis
      using Cons [of a "b + absAmount t"]
      by (simp add: add_income_expense_def creditTotal_def debitTotal_def absAmount_def)
  qed
qed

lemma set_calculateMonthlyData:
  "set (calculateMonthlyData D txs) =
   (\<lambda>(k, d). \<lparr>month = k, income = round2 (fst d), expenses = round2 (snd d),
               net = round2 (fst d - snd d)\<rparr>)
     ` set (foldl (group_step notReversed (monthOf D) (\<lambda>t. (0, 0)) add_income_expense) [] txs)"
  by (simp add: calculateMonthlyData_def calculateMonthlyData_step_group)

lemma monthly_row:
  assumes "r \<in> set (calculateMonthlyData D txs)"
  shows "income r = round2 (creditTotal (bucket notReversed (monthOf D) (month r) txs))
       \<and> expenses r = round2 (debitTotal (bucket notReversed (monthOf D) (month r) txs))
       \<and> net r = round2 (creditTotal (bucket notReversed (monthOf D) (month r) txs)
                         - debitTotal (bucket notReversed (monthOf D) (month r) txs))"
proof -
  from assms obtain k d
    where kd: "(k, d) \<in> set (foldl
        (group_step notReversed (monthOf D) (\<lambda>t. (0, 0)) add_income_expense) [] txs)"
    and r: "r = \<lparr>month = k, income = round2 (fst d), expenses = round2 (snd d),
                net = round2 (fst d - snd d)\<rparr>"
    by (auto simp: set_calculateMonthlyData)
  from group_entry [OF kd] show ?thesis
    by (simp add: r foldl_add_income_expense)
qed





lemma ex_two_rows:
  "calculateMonthlyData ex_dates [ex_contribution, ex_stipend] =
     [\<lparr>month = ''2024-01'', income = 100, expenses = 40, net = 60\<rparr>]"
  by (simp add: calculateMonthlyData_def calculateMonthlyData_step_def ex_contribution_def
      ex_stipend_def ex_dates_def isReversedOrReverse_def getYearMonth_def String_int_def
      digits.simps padStart2_def digit_char_def map_get_def round2_def Math_round_def)




section \<open>Months of runway\<close>

lemma window_trailing:
  "0 < k \<Longrightarrow> window D txs k =
     drop (length (calculateMonthlyData D txs) - nat k) (calculateMonthlyData D txs)"
  by (simp add: window_def slice_from_def Let_def max_def) (simp add: nat_diff_distrib')

lemma window_zero: "window D txs 0 = calculateMonthlyData D txs"
  by (simp add: window_def slice_from_def)

lemma roundToEven_nonneg: "0 \<le> y \<Longrightarrow> 0 \<le> roundToEven y"
  by (simp add: roundToEven_def Let_def)

lemma roundToEven_nonpos: "y \<le> 0 \<Longrightarrow> roundToEven y \<le> 0"
proof -
  assume y: "y \<le> 0"
  then have f: "\<lfloor>y\<rfloor> \<le> 0" by simp
  show ?thesis
  proof (cases "\<lfloor>y\<rfloor> = 0")
    case True
    then have "0 \<le> y" by (simp add: floor_eq_iff)
    with y have "y = 0" by simp
    then show ?thesis by (simp add: roundToEven_def)
  next
    case False
    with f have "\<lfloor>y\<rfloor> + 1 \<le> 0" by linarith
    with f show ?thesis by (simp add: roundToEven_def Let_def)
  qed
qed

lemma pow2_pos: "0 < pow2 q"
  by (simp add: pow2_def)

lemma double_nonneg: "0 \<le> x \<Longrightarrow> 0 \<le> double x"
  using pow2_pos by (simp add: double_def Let_def roundToEven_nonneg less_imp_le)

lemma double_nonpos: "x \<le> 0 \<Longrightarrow> double x \<le> 0"
proof -
  assume x: "x \<le> 0"
  have "of_int (roundToEven (x / pow2 q)) * pow2 q \<le> 0" for q
  proof -
    have "x / pow2 q \<le> 0"
      using x pow2_pos [of q] by (simp add: divide_nonpos_pos)
    then have "real_of_int (roundToEven (x / pow2 q)) \<le> 0"
      using roundToEven_nonpos by simp
    then show ?thesis
      using pow2_pos [of q] by (simp add: mult_nonpos_nonneg less_imp_le)
  qed
  then show ?thesis
    by (simp add: double_def Let_def)
qed

lemma fdiv_nonpos: "a \<le> 0 \<Longrightarrow> 0 \<le> b \<Longrightarrow> fdiv a b \<le> 0"
  unfolding fdiv_def
  by (intro double_nonpos divide_nonpos_nonneg double_nonneg)

lemma binaryExponent_numeral:
  "binaryExponent (numeral k) e x =
     (if x < pow2 e then binaryExponent (pred_numeral k) (e - 1) x
      else if pow2 (e + 1) \<le> x then binaryExponent (pred_numeral k) (e + 1) x
      else e)"
  by (simp add: numeral_eq_Suc)

lemmas double_simps =
  fadd_def fsub_def fmul_def fdiv_def double_def roundToEven_def binaryExponent_numeral
  pow2_def Let_def

lemma foldl_fadd_map:
  "foldl (\<lambda>sum m. fadd sum (f m)) a xs = foldl (\<lambda>sum x. fadd sum x) a (map f xs)"
  by (induction xs arbitrary: a) simp_all

lemma floatSum_map: "foldl (\<lambda>sum m. fadd sum (f m)) 0 xs = floatSum (map f xs)"
  unfolding floatSum_def by (rule foldl_fadd_map)

lemma runway_of_window:
  assumes "window D txs k \<noteq> []"
  shows "monthsOfRunway (calculateRunwayProjection D txs k) =
     (if 0 \<le> floatAverageNet D txs k then PosInf
      else Fin (of_int \<lfloor>fdiv (floatBalance D txs) \<bar>floatAverageNet D txs k\<bar>\<rfloor>))"
proof -
  have len: "real (length (window D txs k)) \<noteq> 0"
    using assms by simp
  show ?thesis
    using len
    by (simp add: calculateRunwayProjection_def Let_def floatSum_map floatAverageNet_def
        floatMean_def floatBalance_def window_def [symmetric])
qed

lemma runway_of_empty_window:
  assumes "window D txs k = []"
  shows "monthsOfRunway (calculateRunwayProjection D txs k) = NaN"
  using assms
  by (simp add: calculateRunwayProjection_def Let_def signed_inf_def window_def [symmetric])

text \<open>
  Claim C4, as amended. The averages of the projection are computed in the arithmetic of
  the doubles: the mean income and the mean expenses of the rows of the trailing window,
  and their difference, the average monthly net; so is the sum of all monthly nets. When
  the window holds at least one month, \<open>monthsOfRunway\<close> is positive infinity if this
  difference is at least 0, and otherwise the floor of the quotient, in the arithmetic of
  the doubles, of the sum of all monthly nets by the absolute value of the difference.
  When that sum is negative the floor is an integer that is not positive, so the result
  is not clamped to zero. With no month at all the averages are \<open>NaN\<close>, and so is
  \<open>monthsOfRunway\<close>.
\<close>

theorem runway_months:
  "(window D txs k \<noteq> [] \<and> 0 \<le> floatAverageNet D txs k
      \<longrightarrow> monthsOfRunway (calculateRunwayProjection D txs k) = PosInf)
   \<and> (window D txs k \<noteq> [] \<and> floatAverageNet D txs k < 0
      \<longrightarrow> monthsOfRunway (calculateRunwayProjection D txs k) =
            Fin (of_int \<lfloor>fdiv (floatBalance D txs) \<bar>floatAverageNet D txs k\<bar>\<rfloor>))
   \<and> (floatAverageNet D txs k < 0 \<and> floatBalance D txs < 0
      \<longrightarrow> \<lfloor>fdiv (floatBalance D txs) \<bar>floatAverageNet D txs k\<bar>\<rfloor> \<le> 0)
   \<and> (window D txs k = []
      \<longrightarrow> monthsOfRunway (calculateRunwayProjection D txs k) = NaN)"
proof (intro conjI impI)
  show "\<lfloor>fdiv (floatBalance D txs) \<bar>floatAverageNet D txs k\<bar>\<rfloor> \<le> 0"
    if "floatAverageNet D txs k < 0 \<and> floatBalance D txs < 0"
  proof -
    from that have "fdiv (floatBalance D txs) \<bar>floatAverageNet D txs k\<bar> \<le> 0"
      by (intro fdiv_nonpos) simp_all
    then show ?thesis by linarith
  qed
qed (simp_all add: runway_of_window runway_of_empty_window)

lemma ex_monthly_rows:
  "calculateMonthlyData ex_dates [ex_contribution] =
     [\<lparr>month = ''2024-01'', income = 100, expenses = 0, net = 100\<rparr>]"
  "calculateMonthlyData ex_dates [ex_stipend] =
     [\<lparr>month = ''2024-01'', income = 0, expenses = 40, net = - 40\<rparr>]"
  "calculateMonthlyData ex_dates [] = []"
  "calculateMonthlyData ex_dates [ex_credit_70, ex_debit_10] =
     [\<lparr>month = ''2024-01'', income = 7 / 10, expenses = 0, net = 7 / 10\<rparr>,
      \<lparr>month = ''2024-02'', income = 0, expenses = 1 / 10, net = - (1 / 10)\<rparr>]"
  by (simp_all add: calculateMonthlyData_def calculateMonthlyData_step_def ex_contribution_def
      ex_stipend_def ex_credit_70_def ex_debit_10_def ex_dates_def isReversedOrReverse_def
      getYearMonth_def String_int_def digits.simps padStart2_def digit_char_def map_get_def
      round2_def Math_round_def)

text \<open>The examples: a contribution of 100; a stipend of 40; no transaction; and a
  contribution of 0.70 in January with an expense of 0.10 in February, averaged over the
  last month, where the balance 0.6 divided by 0.1 leaves 5 months.\<close>

theorem runway_months_witness:
  "window ex_dates [ex_contribution] 6 \<noteq> []
   \<and> 0 \<le> floatAverageNet ex_dates [ex_contribution] 6
   \<and> monthsOfRunway (calculateRunwayProjection ex_dates [ex_contribution] 6) = PosInf
   \<and> window ex_dates [ex_stipend] 6 \<noteq> []
   \<and> floatAverageNet ex_dates [ex_stipend] 6 < 0
   \<and> floatBalance ex_dates [ex_stipend] < 0
   \<and> monthsOfRunway (calculateRunwayProjection ex_dates [ex_stipend] 6) = Fin (- 1)
   \<and> window ex_dates [ex_credit_70, ex_debit_10] 1 \<noteq> []
   \<and> floatAverageNet ex_dates [ex_credit_70, ex_debit_10] 1 < 0
   \<and> monthsOfRunway (calculateRunwayProjection ex_dates [ex_credit_70, ex_debit_10] 1) = Fin 5
   \<and> window ex_dates [] 6 = []
   \<and> monthsOfRunway (calculateRunwayProjection ex_dates [] 6) = NaN"
proof -
  have w: "window ex_dates [ex_contribution] 6 =
      [\<lparr>month = ''2024-01'', income = 100, expenses = 0, net = 100\<rparr>]"
    "window ex_dates [ex_stipend] 6 =
      [\<lparr>month = ''2024-01'', income = 0, expenses = 40, net = - 40\<rparr>]"
    "window ex_dates [] 6 = []"
    "window ex_dates [ex_credit_70, ex_debit_10] 1 =
      [\<lparr>month = ''2024-02'', income = 0, expenses = 1 / 10, net = - (1 / 10)\<rparr>]"
    by (simp_all add: window_def slice_from_def ex_monthly_rows)
  have a: "floatAverageNet ex_dates [ex_contribution] 6 = 100"
    "floatAverageNet ex_dates [ex_stipend] 6 = - 40"
    "floatBalance ex_dates [ex_stipend] = - 40"
    "floatAverageNet ex_dates [ex_credit_70, ex_debit_10] 1 =
       - (3602879701896397 / 36028797018963968)"
    "floatBalance ex_dates [ex_credit_70, ex_debit_10] = 5404319552844595 / 9007199254740992"
    by (simp_all add: floatAverageNet_def floatMean_def floatSum_def floatBalance_def
        w ex_monthly_rows double_simps)
  have "fdiv (- 40) 40 = of_int (- 1)"
    by (simp add: double_simps)
  then have q: "\<lfloor>fdiv (- 40) 40\<rfloor> = - 1"
    by (simp only: floor_of_int)
  have q': "\<lfloor>fdiv (5404319552844595 / 9007199254740992)
                 (3602879701896397 / 36028797018963968)\<rfloor> = 5"
    by (simp add: double_simps)
  from runway_months [of ex_dates "[ex_contribution]" 6]
    runway_months [of ex_dates "[ex_stipend]" 6]
    runway_months [of ex_dates "[ex_credit_70, ex_debit_10]" 1]
    runway_months [of ex_dates "[]" 6]
  show ?thesis
    unfolding w a by (simp add: q q')
qed

text \<open>
  The claim as stated fails. A credit of 0.006 and a debit of 0.012 in one month give the
  row \<open>income = 0.01\<close>, \<open>expenses = 0.01\<close>, \<open>net = -0.01\<close>. The average monthly net over
  the window, the mean of the \<open>net\<close> of its rows, is \<open>-0.01\<close>, and \<open>currentBalance\<close> is
  \<open>-0.01\<close>, for which the claim gives \<open>floor(-0.01 / 0.01) = -1\<close> months. The program
  subtracts the mean expenses from the mean income, finds 0, and reports positive
  infinity.
\<close>

theorem runway_months_counterexample:
  "calculateMonthlyData ex_dates [ex_small_credit, ex_small_debit] =
     [\<lparr>month = ''2024-01'', income = 1 / 100, expenses = 1 / 100, net = - (1 / 100)\<rparr>]
   \<and> windowMeanNet ex_dates [ex_small_credit, ex_small_debit] 6 = - (1 / 100)
   \<and> currentBalance (calculateRunwayProjection ex_dates [ex_small_credit, ex_small_debit] 6)
       = - (1 / 100)
   \<and> specifiedRunway (- (1 / 100)) (- (1 / 100)) = Fin (- 1)
   \<and> monthsOfRunway (calculateRunwayProjection ex_dates [ex_small_credit, ex_small_debit] 6)
       = PosInf"
proof -
  have rows: "calculateMonthlyData ex_dates [ex_small_credit, ex_small_debit] =
     [\<lparr>month = ''2024-01'', income = 1 / 100, expenses = 1 / 100, net = - (1 / 100)\<rparr>]"
    by (simp add: calculateMonthlyData_def calculateMonthlyData_step_def ex_small_credit_def
        ex_small_debit_def ex_contribution_def ex_stipend_def ex_dates_def
        isReversedOrReverse_def getYearMonth_def String_int_def digits.simps padStart2_def
        digit_char_def map_get_def map_set.simps round2_def Math_round_def)
  have d: "fadd 0 (1 / 100) = 5764607523034235 / 576460752303423488"
    by (simp add: double_simps)
  have s: "fsub (fdiv (5764607523034235 / 576460752303423488) 1)
                (fdiv (5764607523034235 / 576460752303423488) 1) = 0"
    by (simp add: fsub_def double_def)
  show ?thesis
    unfolding rows
    by (simp add: windowMeanNet_def mean_def window_def slice_from_def rows specifiedRunway_def
        calculateRunwayProjection_def Let_def d s round2_def Math_round_def)
qed

section \<open>Salaried expenses: the monthly average\<close>

lemma digit_val_digit_char: "d < 10 \<Longrightarrow> digit_val (digit_char d) = Some d"
proof -
  assume "d < 10"
  then have "d \<in> {0, 1, 2, 3, 4, 5, 6, 7, 8, 9}" by auto
  then show ?thesis
    by (auto simp: digit_val_def digit_char_def)
qed

lemma of_char_digit_char: "d < 10 \<Longrightarrow> of_char (digit_char d) = (48 + d :: nat)"
proof -
  assume "d < 10"
  then have "d \<in> {0, 1, 2, 3, 4, 5, 6, 7, 8, 9}" by auto
  then show ?thesis
    by (auto simp: digit_char_def)
qed

lemma digit_char_less: "a < 10 \<Longrightarrow> b < 10 \<Longrightarrow> digit_char a < digit_char b \<longleftrightarrow> a < b"
  by (simp add: less_char_def of_char_digit_char)

lemma digit_char_eq: "a < 10 \<Longrightarrow> b < 10 \<Longrightarrow> digit_char a = digit_char b \<longleftrightarrow> a = b"
  by (metis digit_val_digit_char option.inject)

lemma digit_char_not_hyphen: "d < 10 \<Longrightarrow> digit_char d \<noteq> CHR ''-''"
proof -
  assume "d < 10"
  then have "d \<in> {0, 1, 2, 3, 4, 5, 6, 7, 8, 9}" by auto
  then show ?thesis
    by (auto simp: digit_char_def)
qed

lemma hyphen_notin_digits: "CHR ''-'' \<notin> set (digits n)"
proof (induction n rule: digits.induct)
  case (1 n)
  show ?case
  proof (cases "n < 10")
    case True
    then show ?thesis
      using digit_char_not_hyphen [of n] by (subst digits.simps) auto
  next
    case False
    then show ?thesis
      using 1 digit_char_not_hyphen [of "n mod 10"] by (subst digits.simps) auto
  qed
qed

lemma Number_digits_snoc:
  "Number_digits acc (xs @ [c]) =
     (case Number_digits acc xs of
        Fin v \<Rightarrow> (case digit_val c of Some d \<Rightarrow> Fin (10 * v + real d) | None \<Rightarrow> NaN)
      | PosInf \<Rightarrow> PosInf | NegInf \<Rightarrow> NegInf | NaN \<Rightarrow> NaN)"
  by (induction xs arbitrary: acc) (auto split: option.splits)

lemma Number_digits_digits:
  "Number_digits acc (digits n) = Fin (real (acc * 10 ^ length (digits n) + n))"
proof (induction n rule: digits.induct)
  case (1 n)
  show ?case
  proof (cases "n < 10")
    case True
    then show ?thesis
      by (subst (1 2) digits.simps) (simp add: digit_val_digit_char)
  next
    case False
    have m: "n mod 10 < 10" by simp
    let ?k = "length (digits (n div 10))"
    have e: "10 * (acc * 10 ^ ?k + n div 10) + n mod 10 = acc * (10 * 10 ^ ?k) + n"
      by (simp add: algebra_simps)
    have "10 * real (acc * 10 ^ ?k + n div 10) + real (n mod 10)
        = real (10 * (acc * 10 ^ ?k + n div 10) + n mod 10)"
      by (simp only: of_nat_add of_nat_mult of_nat_numeral)
    also have "\<dots> = real (acc * (10 * 10 ^ ?k) + n)"
      by (simp only: e)
    finally have r: "10 * real (acc * 10 ^ ?k + n div 10) + real (n mod 10)
        = real (acc * (10 * 10 ^ ?k) + n)" .
    have "Number_digits acc (digits (n div 10) @ [digit_char (n mod 10)])
        = Fin (real (acc * 10 ^ length (digits (n div 10) @ [digit_char (n mod 10)]) + n))"
      using 1 [OF False] r
      by (simp add: Number_digits_snoc digit_val_digit_char [OF m] del: of_nat_add of_nat_mult)
    then show ?thesis
      using False by (subst (1 2) digits.simps) simp
  qed
qed

lemma Number_digits_zeros: "Number_digits 0 (replicate k CHR ''0'' @ xs) = Number_digits 0 xs"
  by (induction k) (simp_all add: digit_val_def)

lemma Number_digits_eq: "Number (digits n) = Fin (real n)"
  by (simp add: Number_def Number_digits_digits)

lemma Number_padStart2: "Number (padStart2 (digits n)) = Fin (real n)"
  by (simp add: Number_def padStart2_def Number_digits_zeros Number_digits_digits)

lemma split_no_sep: "d \<notin> set xs \<Longrightarrow> split d xs = [xs]"
  by (induction xs) auto

lemma split_first: "d \<notin> set xs \<Longrightarrow> split d (xs @ d # ys) = xs # split d ys"
  by (induction xs) auto

lemma hyphen_notin_padStart2: "CHR ''-'' \<notin> set (padStart2 (digits n))"
  using hyphen_notin_digits [of n] by (auto simp: padStart2_def)

lemma split_keyOf: "split CHR ''-'' (keyOf y m) = [digits y, padStart2 (digits m)]"
  by (simp add: keyOf_def split_first hyphen_notin_digits split_no_sep hyphen_notin_padStart2)

lemma monthsBetween_keyOf:
  "monthsBetween (keyOf y1 m1) (keyOf y2 m2) =
   Fin ((real y2 - real y1) * 12 + (real m2 - real m1) + 1)"
  by (simp add: monthsBetween_def split_keyOf element_def Number_digits_eq Number_padStart2
      js_sub_def Let_def)

lemma getYearMonth_keyOf:
  "D s = Some (y, m) \<Longrightarrow> 0 \<le> y \<Longrightarrow> 0 \<le> m + 1 \<Longrightarrow>
   getYearMonth D s = keyOf (nat y) (nat (m + 1))"
  by (simp add: getYearMonth_def keyOf_def String_int_def)

lemma div_mod_10_less:
  "(a div 10 < b div 10 \<or> (a div 10 = b div 10 \<and> a mod 10 < b mod 10)) \<longleftrightarrow> a < b"
  for a b :: nat
proof -
  have a: "a = 10 * (a div 10) + a mod 10" and b: "b = 10 * (b div 10) + b mod 10"
    by simp_all
  have ma: "a mod 10 < 10" and mb: "b mod 10 < 10" by simp_all
  obtain qa ra qb rb
    where d: "qa = a div 10" "ra = a mod 10" "qb = b div 10" "rb = b mod 10" by blast
  have "(qa < qb \<or> (qa = qb \<and> ra < rb)) \<longleftrightarrow> 10 * qa + ra < 10 * qb + rb"
    using ma mb unfolding d [symmetric] by linarith
  then show ?thesis using a b unfolding d by simp
qed

lemma less_append_same_length:
  fixes xs ys :: "'a::linorder list"
  shows "length xs = length ys \<Longrightarrow>
    (xs @ zs < ys @ ws) = (xs < ys \<or> (xs = ys \<and> zs < ws))"
  by (induction xs ys rule: list_induct2) auto

lemma length_digits:
  "length (digits n) = (if n < 10 then 1 else Suc (length (digits (n div 10))))"
  by (subst digits.simps) simp

lemma length_digits_pos: "0 < length (digits n)"
  by (subst length_digits) simp

lemma digits_inject: "digits a = digits b \<Longrightarrow> a = b"
proof -
  assume "digits a = digits b"
  then have "Number (digits a) = Number (digits b)" by (rule arg_cong)
  then show "a = b" by (simp only: Number_digits_eq number.inject of_nat_eq_iff)
qed

lemma digits_less:
  "length (digits a) = length (digits b) \<Longrightarrow> digits a < digits b \<longleftrightarrow> a < b"
proof (induction a arbitrary: b rule: digits.induct)
  case (1 a)
  show ?case
  proof (cases "a < 10")
    case True
    then have "length (digits b) = 1"
      using "1.prems" by (simp add: length_digits [of a])
    then have b: "b < 10"
      using length_digits_pos [of "b div 10"] by (simp add: length_digits [of b] split: if_splits)
    have "digits a = [digit_char a]" "digits b = [digit_char b]"
      using True b by (simp_all add: digits.simps)
    then show ?thesis
      using True b by (simp add: digit_char_less)
  next
    case False
    then have "length (digits b) = Suc (length (digits (a div 10)))"
      using "1.prems" by (simp add: length_digits [of a])
    then have b: "\<not> b < 10" and len: "length (digits (a div 10)) = length (digits (b div 10))"
      using length_digits_pos [of "a div 10"]
      by (simp_all add: length_digits [of b] split: if_splits)
    have da: "digits a = digits (a div 10) @ [digit_char (a mod 10)]"
      using False by (subst digits.simps) simp
    have db: "digits b = digits (b div 10) @ [digit_char (b mod 10)]"
      using b by (subst digits.simps) simp
    have ih: "digits (a div 10) < digits (b div 10) \<longleftrightarrow> a div 10 < b div 10"
      using "1.IH" [OF False len] .
    have eq: "digits (a div 10) = digits (b div 10) \<longleftrightarrow> a div 10 = b div 10"
      using digits_inject by auto
    have "digits a < digits b \<longleftrightarrow>
        a div 10 < b div 10 \<or> (a div 10 = b div 10 \<and> a mod 10 < b mod 10)"
      unfolding da db less_append_same_length [OF len] ih eq
      by (simp add: digit_char_less)
    also have "\<dots> \<longleftrightarrow> a < b"
      by (rule div_mod_10_less)
    finally show ?thesis .
  qed
qed

lemma padStart2_digits:
  "m < 100 \<Longrightarrow> padStart2 (digits m) = [digit_char (m div 10), digit_char (m mod 10)]"
proof (cases "m < 10")
  case True
  then show ?thesis
    by (simp add: padStart2_def digits.simps digit_char_def)
next
  case False
  assume "m < 100"
  with False have "m div 10 < 10" by (simp add: div_less_iff_less_mult)
  with False show ?thesis
    by (simp add: padStart2_def digits.simps [of m] digits.simps [of "m div 10"])
qed

lemma padStart2_less:
  assumes "a < 100" "b < 100"
  shows "padStart2 (digits a) < padStart2 (digits b) \<longleftrightarrow> a < b"
proof -
  have d: "a div 10 < 10" "b div 10 < 10" "a mod 10 < 10" "b mod 10 < 10"
    using assms by (simp_all add: div_less_iff_less_mult)
  have "padStart2 (digits a) < padStart2 (digits b) \<longleftrightarrow>
      a div 10 < b div 10 \<or> (a div 10 = b div 10 \<and> a mod 10 < b mod 10)"
    by (simp add: padStart2_digits assms digit_char_less d digit_char_eq)
  also have "\<dots> \<longleftrightarrow> a < b" by (rule div_mod_10_less)
  finally show ?thesis .
qed

lemma keyOf_less:
  assumes "length (digits y) = length (digits y')" "m < 100" "m' < 100"
  shows "keyOf y m < keyOf y' m' \<longleftrightarrow> y < y' \<or> (y = y' \<and> m < m')"
  unfolding keyOf_def less_append_same_length [OF assms(1)]
  using digits_less [OF assms(1)] digits_inject [of y y'] padStart2_less [OF assms(2,3)]
  by auto

lemma length_digits_4: "1000 \<le> n \<Longrightarrow> n \<le> 9999 \<Longrightarrow> length (digits n) = 4"
proof -
  assume n: "1000 \<le> n" "n \<le> 9999"
  then have "\<not> n < 10" "\<not> n div 10 < 10" "\<not> n div 10 div 10 < 10" "n div 10 div 10 div 10 < 10"
    by (simp_all add: div_mult2_eq [symmetric] div_less_iff_less_mult not_less
        less_eq_div_iff_mult_less_eq)
  then show ?thesis
    by (simp add: length_digits [of n] length_digits [of "n div 10"]
        length_digits [of "n div 10 div 10"] length_digits [of "n div 10 div 10 div 10"])
qed

lemma analyzeSalariedExpenses_step_group:
  "analyzeSalariedExpenses_step D =
   group_step isSalary counterparty (salary_init D) (salary_upd D)"
  by (intro ext)
     (auto simp: analyzeSalariedExpenses_step_def group_step_def isSalary_def isExpense_def
        salary_init_def salary_upd_def monthOf_def absAmount_def Let_def min_def max_def
        split: option.splits)

lemma foldl_salary_upd:
  "foldl (salary_upd D) c ts =
     c\<lparr>total := total c + sum_list (map absAmount ts),
       total_fp := foldl (fadd) (total_fp c) (map absAmount ts),
       paymentCount_acc := paymentCount_acc c + length ts,
       earliestMonth := Min (insert (earliestMonth c) (monthOf D ` set ts)),
       latestMonth := Max (insert (latestMonth c) (monthOf D ` set ts))\<rparr>"
proof (induction ts arbitrary: c)
  case Nil
  then show ?case by simp
next
  case (Cons t ts)
  have mn: "Min (insert (min (monthOf D t) (earliestMonth c)) (monthOf D ` set ts)) =
      Min (insert (earliestMonth c) (insert (monthOf D t) (monthOf D ` set ts)))"
    by (cases "ts = []") (simp_all add: min.commute min.left_commute)
  have mx: "Max (insert (max (monthOf D t) (latestMonth c)) (monthOf D ` set ts)) =
      Max (insert (latestMonth c) (insert (monthOf D t) (monthOf D ` set ts)))"
    by (cases "ts = []") (simp_all add: max.commute max.left_commute)
  have "foldl (salary_upd D) c (t # ts) = foldl (salary_upd D) (salary_upd D c t) ts"
    by simp
  also have "\<dots> = (salary_upd D c t)
      \<lparr>total := total (salary_upd D c t) + sum_list (map absAmount ts),
       total_fp := foldl (fadd) (total_fp (salary_upd D c t)) (map absAmount ts),
       paymentCount_acc := paymentCount_acc (salary_upd D c t) + length ts,
       earliestMonth := Min (insert (earliestMonth (salary_upd D c t)) (monthOf D ` set ts)),
       latestMonth := Max (insert (latestMonth (salary_upd D c t)) (monthOf D ` set ts))\<rparr>"
    by (rule Cons)
  also have "\<dots> = c
      \<lparr>total := total c + sum_list (map absAmount (t # ts)),
       total_fp := foldl (fadd) (total_fp c) (map absAmount (t # ts)),
       paymentCount_acc := paymentCount_acc c + length (t # ts),
       earliestMonth := Min (insert (earliestMonth c) (monthOf D ` set (t # ts))),
       latestMonth := Max (insert (latestMonth c) (monthOf D ` set (t # ts)))\<rparr>"
    unfolding salary_upd_def by (simp add: mn mx add.assoc del: Min_insert Max_insert)
  finally show ?case .
qed

lemma set_analyzeSalariedExpenses:
  "set (analyzeSalariedExpenses D txs) =
   (\<lambda>(recipient, data).
       \<lparr>recipient_sa = recipient,
        totalPaid = round2 (total data),
        monthlyAverage =
          round2n (fl_div (Fin (total_fp data))
            (monthsBetween (earliestMonth data) (latestMonth data))),
        paymentCount = paymentCount_acc data,
        firstPayment = earliestMonth data,
        lastPayment = latestMonth data,
        description = description_acc data\<rparr>)
     ` set (foldl (group_step isSalary counterparty (salary_init D) (salary_upd D)) [] txs)"
  by (simp add: analyzeSalariedExpenses_def analyzeSalariedExpenses_step_group Let_def)

lemma salary_row:
  assumes "r \<in> set (analyzeSalariedExpenses D txs)"
  shows "bucket isSalary counterparty (recipient_sa r) txs \<noteq> []
     \<and> totalPaid r = round2 (sum_list (map absAmount (bucket isSalary counterparty (recipient_sa r) txs)))
     \<and> paymentCount r = length (bucket isSalary counterparty (recipient_sa r) txs)
     \<and> firstPayment r = Min (monthOf D ` set (bucket isSalary counterparty (recipient_sa r) txs))
     \<and> lastPayment r = Max (monthOf D ` set (bucket isSalary counterparty (recipient_sa r) txs))
     \<and> monthlyAverage r =
         round2n (fl_div
           (Fin (floatSum (map absAmount (bucket isSalary counterparty (recipient_sa r) txs))))
           (monthsBetween (firstPayment r) (lastPayment r)))"
proof -
  from assms obtain k d
    where kd: "(k, d) \<in> set (foldl
        (group_step isSalary counterparty (salary_init D) (salary_upd D)) [] txs)"
    and r: "r = \<lparr>recipient_sa = k,
        totalPaid = round2 (total d),
        monthlyAverage =
          round2n (fl_div (Fin (total_fp d))
            (monthsBetween (earliestMonth d) (latestMonth d))),
        paymentCount = paymentCount_acc d,
        firstPayment = earliestMonth d,
        lastPayment = latestMonth d,
        description = description_acc d\<rparr>"
    by (auto simp: set_analyzeSalariedExpenses)
  let ?B = "bucket isSalary counterparty k txs"
  from group_entry [OF kd]
  have ne: "?B \<noteq> []" and d: "d = foldl (salary_upd D) (salary_init D (hd ?B)) ?B"
    by simp_all
  have hd: "monthOf D (hd ?B) \<in> monthOf D ` set ?B"
    using ne by simp
  have "earliestMonth d = Min (monthOf D ` set ?B)" "latestMonth d = Max (monthOf D ` set ?B)"
    "total d = sum_list (map absAmount ?B)" "paymentCount_acc d = length ?B"
    "total_fp d = floatSum (map absAmount ?B)"
    unfolding d foldl_salary_upd floatSum_def using hd
    by (simp_all add: salary_init_def insert_absorb del: Min_insert Max_insert)
  then show ?thesis
    using ne by (simp add: r)
qed

lemma validDate_key:
  assumes "validDate D t"
  shows "monthOf D t = keyOf (nat (yearOf D t)) (nat (monthNumber D t))"
    and "1000 \<le> yearOf D t" and "yearOf D t \<le> 9999"
    and "1 \<le> monthNumber D t" and "monthNumber D t \<le> 12"
  using assms
  by (auto simp: validDate_def monthOf_def yearOf_def monthNumber_def getYearMonth_keyOf
      split: option.splits)

lemma validDate_le:
  assumes a: "validDate D a" and b: "validDate D b"
  shows "monthOf D a \<le> monthOf D b \<longleftrightarrow> notLater D a b"
proof -
  note va = validDate_key [OF a] and vb = validDate_key [OF b]
  have len: "length (digits (nat (yearOf D b))) = length (digits (nat (yearOf D a)))"
    using va(2,3) vb(2,3) by (simp add: length_digits_4)
  have m: "nat (monthNumber D b) < 100" "nat (monthNumber D a) < 100"
    using va(5) vb(5) by simp_all
  have "monthOf D a \<le> monthOf D b \<longleftrightarrow> \<not> monthOf D b < monthOf D a"
    by auto
  also have "\<dots> \<longleftrightarrow> \<not> (nat (yearOf D b) < nat (yearOf D a)
      \<or> (nat (yearOf D b) = nat (yearOf D a) \<and> nat (monthNumber D b) < nat (monthNumber D a)))"
    unfolding va(1) vb(1) keyOf_less [OF len m] ..
  also have "\<dots> \<longleftrightarrow> notLater D a b"
    using va(2,4) vb(2,4) unfolding notLater_def by auto
  finally show ?thesis .
qed

lemma validDate_monthsBetween:
  assumes a: "validDate D a" and b: "validDate D b"
  shows "monthsBetween (monthOf D a) (monthOf D b) = Fin (of_int (monthSpan D a b))"
proof -
  note va = validDate_key [OF a] and vb = validDate_key [OF b]
  have "real (nat (yearOf D a)) = of_int (yearOf D a)" "real (nat (yearOf D b)) = of_int (yearOf D b)"
    "real (nat (monthNumber D a)) = of_int (monthNumber D a)"
    "real (nat (monthNumber D b)) = of_int (monthNumber D b)"
    using va(2,4) vb(2,4) by simp_all
  then show ?thesis
    unfolding va(1) vb(1) monthsBetween_keyOf by (simp add: monthSpan_def)
qed

lemma monthSpan_pos:
  assumes a: "validDate D a" and b: "validDate D b" and le: "notLater D a b"
  shows "1 \<le> monthSpan D a b"
proof -
  note va = validDate_key [OF a] and vb = validDate_key [OF b]
  from le va(4,5) vb(4,5) show ?thesis
    unfolding notLater_def monthSpan_def by auto
qed

text \<open>
  Claim C7, as amended. For a recipient of salary-like expenses whose payment dates are
  all valid dates in years of four digits, \<open>firstPayment\<close> and \<open>lastPayment\<close> are the months
  of the earliest and of the latest payment, and \<open>monthSpan\<close> is
  \<open>(latestYear - earliestYear) * 12 + (latestMonth - earliestMonth) + 1\<close>, which is at
  least 1. \<open>monthlyAverage\<close> is computed in the arithmetic of the doubles: it is the sum of
  the absolute amounts, accumulated in the order of the payments and not rounded, divided
  by \<open>monthSpan\<close>, and this quotient rounded by \<open>Math.round(x * 100) / 100\<close>.
\<close>

theorem salary_monthly_average:
  assumes "r \<in> set (analyzeSalariedExpenses D txs)"
    and "\<forall>tx \<in> set (bucket isSalary counterparty (recipient_sa r) txs). validDate D tx"
  shows "\<exists>e \<in> set (bucket isSalary counterparty (recipient_sa r) txs).
         \<exists>l \<in> set (bucket isSalary counterparty (recipient_sa r) txs).
           (\<forall>t \<in> set (bucket isSalary counterparty (recipient_sa r) txs).
              notLater D e t \<and> notLater D t l)
           \<and> firstPayment r = monthOf D e
           \<and> lastPayment r = monthOf D l
           \<and> monthsBetween (firstPayment r) (lastPayment r) = Fin (of_int (monthSpan D e l))
           \<and> 1 \<le> monthSpan D e l
           \<and> monthlyAverage r =
               Fin (fl_round2
                 (fdiv
                   (floatSum (map absAmount (bucket isSalary counterparty (recipient_sa r) txs)))
                   (of_int (monthSpan D e l))))"
proof -
  let ?B = "bucket isSalary counterparty (recipient_sa r) txs"
  note row = salary_row [OF assms(1)]
  from row have ne: "monthOf D ` set ?B \<noteq> {}" by simp
  have fin: "finite (monthOf D ` set ?B)" by simp
  from Min_in [OF fin ne] obtain e where e: "e \<in> set ?B" "monthOf D e = Min (monthOf D ` set ?B)"
    by auto
  from Max_in [OF fin ne] obtain l where l: "l \<in> set ?B" "monthOf D l = Max (monthOf D ` set ?B)"
    by auto
  have ve: "validDate D e" and vl: "validDate D l"
    using assms(2) e(1) l(1) by blast+
  have between: "notLater D e t \<and> notLater D t l" if t: "t \<in> set ?B" for t
  proof -
    have vt: "validDate D t" using assms(2) t by blast
    have "monthOf D e \<le> monthOf D t" "monthOf D t \<le> monthOf D l"
      unfolding e(2) l(2) using t by (simp_all add: Min_le Max_ge)
    then show ?thesis
      by (simp add: validDate_le [OF ve vt] validDate_le [OF vt vl])
  qed
  have f: "firstPayment r = monthOf D e" "lastPayment r = monthOf D l"
    using row e(2) l(2) by simp_all
  have span: "monthsBetween (firstPayment r) (lastPayment r) = Fin (of_int (monthSpan D e l))"
    unfolding f by (rule validDate_monthsBetween [OF ve vl])
  have pos: "1 \<le> monthSpan D e l"
    using monthSpan_pos [OF ve vl] between [OF l(1)] by simp
  have avg: "monthlyAverage r =
      Fin (fl_round2 (fdiv (floatSum (map absAmount ?B)) (of_int (monthSpan D e l))))"
    using row span pos by simp
  from e(1) l(1) between f span pos avg show ?thesis
    by blast
qed

lemmas ex_salary_simps =
  analyzeSalariedExpenses_def analyzeSalariedExpenses_step_def ex_stipend_def
  ex_stipend_march_def ex_stipend_9999_def ex_stipend_10000_def ex_stipend_undated_def
  ex_stipend_100_def ex_stipend_101_def
  ex_dates_def isReversedOrReverse_def isSalaryLike_def salaryKeywords_def toLowerCase_def
  toLowerCase_char_def counterparty_def getYearMonth_def String_int_def digits.simps
  padStart2_def digit_char_def map_get_def round2_def fl_round2_def Math_round_def
  monthsBetween_def Number_def digit_val_def element_def js_sub_def span_view_def
  signed_inf_def double_simps

lemma ex_january_march:
  "map span_view (analyzeSalariedExpenses ex_dates [ex_stipend, ex_stipend_march]) =
     [(80, ''2024-01'', ''2024-03'', Fin 3, Fin (2667 / 100))]"
  by (simp add: ex_salary_simps)

lemma ex_half_cent_average:
  "map span_view (analyzeSalariedExpenses ex_dates [ex_stipend_100, ex_stipend_101]) =
     [(201 / 100, ''2024-01'', ''2024-02'', Fin 2, Fin 1)]"
  by (simp add: ex_salary_simps)

lemma ex_year_10000:
  "map span_view (analyzeSalariedExpenses ex_dates [ex_stipend_9999, ex_stipend_10000]) =
     [(80, ''10000-01'', ''9999-12'', Fin 0, PosInf)]"
  by (simp add: ex_salary_simps)

lemma ex_undated:
  "map span_view (analyzeSalariedExpenses ex_dates [ex_stipend_undated]) =
     [(40, ''NaN-NaN'', ''NaN-NaN'', NaN, NaN)]"
  by (simp add: ex_salary_simps)

text \<open>The examples: 40 paid in January and 40 in March, over 3 months; 1.00 paid in
  January and 1.01 in February, over 2 months, where the doubles take the quotient of
  2.01 by 2 below the middle between 1.00 and 1.01.\<close>

theorem salary_monthly_average_witness:
  "(\<exists>r \<in> set (analyzeSalariedExpenses ex_dates [ex_stipend, ex_stipend_march]).
     validDate ex_dates ex_stipend \<and> validDate ex_dates ex_stipend_march
     \<and> span_view r = (80, ''2024-01'', ''2024-03'', Fin 3, Fin (2667 / 100))
     \<and> (\<exists>e \<in> set (bucket isSalary counterparty (recipient_sa r) [ex_stipend, ex_stipend_march]).
         \<exists>l \<in> set (bucket isSalary counterparty (recipient_sa r) [ex_stipend, ex_stipend_march]).
           monthSpan ex_dates e l = 3))
   \<and> map span_view (analyzeSalariedExpenses ex_dates [ex_stipend_100, ex_stipend_101]) =
       [(201 / 100, ''2024-01'', ''2024-02'', Fin 2, Fin 1)]"
proof -
  let ?txs = "[ex_stipend, ex_stipend_march]"
  have v: "validDate ex_dates ex_stipend" "validDate ex_dates ex_stipend_march"
    by (simp_all add: validDate_def ex_stipend_def ex_stipend_march_def ex_dates_def)
  from ex_january_march obtain r
    where r: "analyzeSalariedExpenses ex_dates ?txs = [r]"
      "span_view r = (80, ''2024-01'', ''2024-03'', Fin 3, Fin (2667 / 100))"
    by (auto simp: map_eq_Cons_conv)
  have mem: "r \<in> set (analyzeSalariedExpenses ex_dates ?txs)"
    using r(1) by simp
  have "\<forall>tx \<in> set (bucket isSalary counterparty (recipient_sa r) ?txs). validDate ex_dates tx"
    using v by (auto simp: bucket_def)
  from salary_monthly_average [OF mem this] obtain e l
    where el: "e \<in> set (bucket isSalary counterparty (recipient_sa r) ?txs)"
      "l \<in> set (bucket isSalary counterparty (recipient_sa r) ?txs)"
      "monthsBetween (firstPayment r) (lastPayment r) = Fin (of_int (monthSpan ex_dates e l))"
    by blast
  from r(2) have "monthsBetween (firstPayment r) (lastPayment r) = Fin 3"
    unfolding span_view_def by blast
  with el(3) have "monthSpan ex_dates e l = 3"
    by simp
  with el(1,2) v r(2) mem ex_half_cent_average show ?thesis
    by blast
qed

text \<open>
  The claim as stated fails. Paid 40 in January and 40 in March, a recipient has
  \<open>totalPaid = 80\<close> and \<open>monthSpan = 3\<close>, and \<open>monthlyAverage\<close> is 26.67, not 80 / 3. Paid
  in December 9999 and January 10000, a recipient has the earliest month
  \<open>"10000-01"\<close>, the latest \<open>"9999-12"\<close>, \<open>monthSpan = 0\<close> and an infinite average; with a
  timestamp that does not parse, both are \<open>NaN\<close>.
\<close>

theorem salary_monthly_average_counterexample:
  "map span_view (analyzeSalariedExpenses ex_dates [ex_stipend, ex_stipend_march]) =
     [(80, ''2024-01'', ''2024-03'', Fin 3, Fin (2667 / 100))]
   \<and> Fin (2667 / 100) \<noteq> fl_div (Fin 80) (Fin 3)
   \<and> map span_view (analyzeSalariedExpenses ex_dates [ex_stipend_9999, ex_stipend_10000]) =
     [(80, ''10000-01'', ''9999-12'', Fin 0, PosInf)]
   \<and> map span_view (analyzeSalariedExpenses ex_dates [ex_stipend_undated]) =
     [(40, ''NaN-NaN'', ''NaN-NaN'', NaN, NaN)]"
proof -
  have "fl_div (Fin 80) (Fin 3) = Fin (7505999378950827 / 281474976710656)"
    by (simp add: double_simps)
  then show ?thesis
    using ex_january_march ex_year_10000 ex_undated by simp
qed

section \<open>Rounding of monetary values\<close>







lemma monthly_rows_rounded:
  "\<forall>r \<in> set (calculateMonthlyData D txs).
     income r = round2 (creditTotal (bucket notReversed (monthOf D) (month r) txs))
     \<and> expenses r = round2 (debitTotal (bucket notReversed (monthOf D) (month r) txs))
     \<and> net r = round2 (creditTotal (bucket notReversed (monthOf D) (month r) txs)
                       - debitTotal (bucket notReversed (monthOf D) (month r) txs))"
  using monthly_row by blast







lemma foldl_analyzeContributions_step:
  "foldl analyzeContributions_step (m1, m2) txs =
     (foldl (group_step isRecurringGift counterparty (\<lambda>t. (0, 0))
               (add_amount Amount_Single_Column)) m1 txs,
      foldl (group_step isOneTimeGift counterparty (\<lambda>t. (0, 0))
               (add_amount Amount_Single_Column)) m2 txs)"
  by (induction txs arbitrary: m1 m2)
     (auto simp: analyzeContributions_step_def group_step_def add_amount_def
        isRecurringGift_def isOneTimeGift_def isContribution_def isIncome_def Let_def)


















lemma add_to_source_group:
  "(if sel tx then add_to_source m tx else m) =
   group_step sel counterparty (\<lambda>t. 0) (\<lambda>v t. v + Amount_Single_Column t) m tx"
  by (simp add: add_to_source_def group_step_def)











































section \<open>Roll-up of the contribution analysis\<close>

lemma sum_list_map_insort_key:
  "sum_list (map f (insort_key g x ys)) = f x + sum_list (map f ys)"
  for f :: "'a \<Rightarrow> nat"
  by (induction ys) simp_all

lemma sum_list_map_sort_key: "sum_list (map f (sort_key g xs)) = sum_list (map f xs)"
  for f :: "'a \<Rightarrow> nat"
  by (induction xs) (simp_all add: sum_list_map_insort_key)

lemma count_map_set:
  "sum_list (map (\<lambda>e. snd (snd e)) (map_set m k v))
     + (case map_of m k of Some c \<Rightarrow> snd c | None \<Rightarrow> 0)
   = sum_list (map (\<lambda>e. snd (snd e)) m) + snd v"
  for m :: "(real \<times> nat) js_map"
  by (induction m) auto

lemma count_group_step:
  "sum_list (map (\<lambda>e. snd (snd e)) (group_step sel key (\<lambda>t. (0, 0)) (add_amount f) m t))
   = sum_list (map (\<lambda>e. snd (snd e)) m) + (if sel t then 1 else 0)"
  using count_map_set [of m "key t"
      "add_amount f (case map_get m (key t) of Some c \<Rightarrow> c | None \<Rightarrow> (0, 0)) t"]
  by (auto simp: group_step_def add_amount_def map_get_def split: option.splits)

lemma count_group_fold:
  "sum_list (map (\<lambda>e. snd (snd e))
      (foldl (group_step sel key (\<lambda>t. (0, 0)) (add_amount f)) m txs))
   = sum_list (map (\<lambda>e. snd (snd e)) m) + length (filter sel txs)"
  by (induction txs arbitrary: m) (simp_all add: count_group_step)

lemma count_toBreakdown:
  "sum_list (map count (toBreakdown m)) = sum_list (map (\<lambda>e. snd (snd e)) m)"
  by (simp add: toBreakdown_def sum_list_map_sort_key comp_def case_prod_beta)

lemma contribution_counts:
  "count_side (recurring (analyzeContributions txs)) = length (filter isRecurringGift txs)"
  "count_side (oneTime (analyzeContributions txs)) = length (filter isOneTimeGift txs)"
  by (simp_all add: analyzeContributions_def Let_def foldl_plus_sum_list
      foldl_analyzeContributions_step count_toBreakdown count_group_fold)

text \<open>
  Claim C10. On both sides of the contribution analysis, \<open>count\<close> is the sum of the
  contributors' counts and \<open>amount\<close> is the sum of the contributors' (rounded) amounts,
  rounded to 2 decimals. The counts are those of the input: the number of recurring,
  respectively one-time, contributions that are credits and not reversed. The function
  is the same text in both copies of the module.
\<close>

theorem contributions_roll_up:
  "count_side (recurring (analyzeContributions txs)) =
     sum_list (map count (contributors (recurring (analyzeContributions txs))))
   \<and> amount_side (recurring (analyzeContributions txs)) =
     round2 (sum_list (map amount (contributors (recurring (analyzeContributions txs)))))
   \<and> count_side (oneTime (analyzeContributions txs)) =
     sum_list (map count (contributors (oneTime (analyzeContributions txs))))
   \<and> amount_side (oneTime (analyzeContributions txs)) =
     round2 (sum_list (map amount (contributors (oneTime (analyzeContributions txs)))))
   \<and> count_side (recurring (analyzeContributions txs)) = length (filter isRecurringGift txs)
   \<and> count_side (oneTime (analyzeContributions txs)) = length (filter isOneTimeGift txs)"
  using contribution_counts [of txs]
  by (simp add: analyzeContributions_def Let_def foldl_plus_sum_list)

section \<open>Reversed transactions: an example\<close>

text \<open>A refund between a contribution and a stipend changes no report.\<close>

theorem reversed_never_contribute_witness:
  "isReversedOrReverse ex_reversal
   \<and> withoutReversed [ex_contribution, ex_reversal, ex_stipend] = [ex_contribution, ex_stipend]
   \<and> calculateMonthlyData ex_dates [ex_contribution, ex_reversal, ex_stipend] =
       [\<lparr>month = ''2024-01'', income = 100, expenses = 40, net = 60\<rparr>]
   \<and> analyzeIncomeSources [ex_contribution, ex_reversal, ex_stipend] =
       analyzeIncomeSources [ex_contribution, ex_stipend]
   \<and> getLargestSingleContributions [ex_contribution, ex_reversal, ex_stipend] 10 =
       getLargestSingleContributions [ex_contribution, ex_stipend] 10"
proof -
  have r: "isReversedOrReverse ex_reversal" "\<not> isReversedOrReverse ex_contribution"
    "\<not> isReversedOrReverse ex_stipend"
    by (simp_all add: isReversedOrReverse_def ex_reversal_def ex_contribution_def ex_stipend_def)
  then have w: "withoutReversed [ex_contribution, ex_reversal, ex_stipend] =
      [ex_contribution, ex_stipend]"
    by (simp add: withoutReversed_def)
  from reversed_never_contribute [of ex_dates "[ex_contribution, ex_reversal, ex_stipend]" 6 10]
  show ?thesis
    unfolding w using r(1) by (simp add: ex_two_rows)
qed

end
